theory Spec2Isabelle
  imports Main "HOL-Library.AList"
begin

section \<open>Security-group firewall drivers of nova/virt/libvirt/firewall.py\<close>

text \<open>
  The theory embeds the two firewall drivers of \<^verbatim>\<open>nova/virt/libvirt/firewall.py\<close>:
  \<^verbatim>\<open>NWFilterFirewall\<close> (libvirt nwfilter documents) and \<^verbatim>\<open>IptablesFirewallDriver\<close>
  (iptables chains). Python objects are records, the mutable driver objects are states
  that every method takes and returns, an exception is the \<open>Inl\<close> branch of a sum, and
  every \<^verbatim>\<open>for\<close> loop is a recursive function over the list it walks.
\<close>

subsection \<open>Python values\<close>

datatype error = TypeError | KeyError

text \<open>\<^verbatim>\<open>'%s' % n\<close> for an integer \<open>n\<close>: its decimal digits, with a minus sign below zero.\<close>

fun str_nat :: "nat \<Rightarrow> string" where
  "str_nat n =
     (if n < 10 then [''0123456789'' ! n]
      else str_nat (n div 10) @ [''0123456789'' ! (n mod 10)])"

declare str_nat.simps [simp del]

definition str_int :: "int \<Rightarrow> string" where
  "str_int i = (if i < 0 then ''-'' @ str_nat (nat (- i)) else str_nat (nat i))"

text \<open>\<^verbatim>\<open>'%s' % x\<close> for a value that is a string or \<^verbatim>\<open>None\<close>.\<close>

fun str_opt :: "string option \<Rightarrow> string" where
  "str_opt None = ''None''"
| "str_opt (Some s) = s"

text \<open>Truth value of a string or \<^verbatim>\<open>None\<close>: \<^verbatim>\<open>None\<close> and the empty string are false.\<close>

fun truthy :: "string option \<Rightarrow> bool" where
  "truthy None = False"
| "truthy (Some s) = (s \<noteq> [])"

text \<open>
  \<^verbatim>\<open>' '.join(args)\<close>: the items separated by one space; a \<^verbatim>\<open>None\<close> among the items
  raises \<^verbatim>\<open>TypeError\<close>.
\<close>

fun join_sp :: "string list \<Rightarrow> string" where
  "join_sp [] = []"
| "join_sp [x] = x"
| "join_sp (x # y # ys) = x @ '' '' @ join_sp (y # ys)"

definition join_args :: "string option list \<Rightarrow> error + string" where
  "join_args args =
     (if None \<in> set args then Inl TypeError else Inr (join_sp (map the args)))"

text \<open>\<^verbatim>\<open>s.replace(':', '')\<close>.\<close>

definition strip_colons :: "string \<Rightarrow> string" where
  "strip_colons s = filter (\<lambda>c. c \<noteq> CHR '':'') s"

text \<open>The single quote, which a string literal cannot end with.\<close>

definition sq :: string where
  "sq = [CHR 0x27]"

subsection \<open>Data model\<close>

text \<open>
  An instance is read through \<^verbatim>\<open>instance['id']\<close>, \<^verbatim>\<open>instance['name']\<close> and
  \<^verbatim>\<open>instance['image_ref']\<close> only.
\<close>

record instance_t =
  inst_id :: int
  inst_name :: string
  image_ref :: string

text \<open>
  A network of \<^verbatim>\<open>network_info\<close>: \<^verbatim>\<open>network['gateway']\<close>, \<^verbatim>\<open>network['cidr']\<close>
  (field \<open>net_cidr\<close>), \<^verbatim>\<open>network['gateway_v6']\<close> and \<^verbatim>\<open>network['cidr_v6']\<close>; the two
  IPv6 entries may be \<^verbatim>\<open>None\<close>. A mapping: \<^verbatim>\<open>mapping['mac']\<close> and the addresses
  \<^verbatim>\<open>ip['ip']\<close> of \<^verbatim>\<open>mapping['ips']\<close> and \<^verbatim>\<open>mapping['ip6s']\<close> (fields
  \<open>mapping_ips\<close> and \<open>mapping_ip6s\<close>).
\<close>

record network_t =
  gateway :: string
  net_cidr :: string
  gateway_v6 :: "string option"
  cidr_v6 :: "string option"

record mapping_t =
  mac :: string
  mapping_ips :: "string list"
  mapping_ip6s :: "string list"

text \<open>
  \<^verbatim>\<open>network_info\<close> is a list of (network, mapping) pairs. The methods take it as an
  optional argument and test it with \<^verbatim>\<open>if not network_info\<close>, which \<^verbatim>\<open>None\<close> and the
  empty list both satisfy: the model passes \<open>[]\<close> for either.
\<close>

type_synonym network_info_t = "(network_t \<times> mapping_t) list"

text \<open>
  A security-group rule: \<^verbatim>\<open>rule.protocol\<close> and \<^verbatim>\<open>rule.cidr\<close> may be \<^verbatim>\<open>None\<close>;
  \<^verbatim>\<open>rule.from_port\<close> and \<^verbatim>\<open>rule.to_port\<close> are integers, \<open>-1\<close> standing for "any".
\<close>

record security_group_rule =
  protocol :: "string option"
  cidr :: "string option"
  from_port :: int
  to_port :: int

record security_group =
  sg_id :: int
  sg_rules :: "security_group_rule list"

text \<open>
  What the drivers read from outside this module, as one record: the three \<^verbatim>\<open>FLAGS\<close>,
  the \<^verbatim>\<open>db\<close> queries and the \<^verbatim>\<open>netutils\<close> helpers. None of \<^verbatim>\<open>flags\<close>, \<^verbatim>\<open>db\<close> and
  \<^verbatim>\<open>netutils\<close> is part of the module, so each is a parameter. \<open>vpn_image_id\<close> stands
  for \<^verbatim>\<open>str(FLAGS.vpn_image_id)\<close>.
\<close>

record env =
  use_ipv6 :: bool
  allow_project_net_traffic :: bool
  vpn_image_id :: string
  get_network_info :: "instance_t \<Rightarrow> network_info_t"
  security_group_get_by_instance :: "int \<Rightarrow> security_group list"
  security_group_rule_get_by_security_group :: "int \<Rightarrow> security_group_rule list"
  security_group_get :: "int \<Rightarrow> security_group"
  get_ip_version :: "string \<Rightarrow> int"
  get_net_and_mask :: "string \<Rightarrow> string \<times> string"
  get_net_and_prefixlen :: "string \<Rightarrow> string \<times> string"

subsection \<open>IptablesFirewallDriver.instance_rules\<close>

text \<open>
  The argument list of one rule, from \<^verbatim>\<open>args = ['-p', protocol, '-s', rule.cidr]\<close> to
  \<^verbatim>\<open>args += ['-j ACCEPT']\<close>. \<open>version\<close> is \<^verbatim>\<open>netutils.get_ip_version(rule.cidr)\<close> and
  \<open>c\<close> the rule's CIDR.
\<close>

definition rule_args :: "int \<Rightarrow> security_group_rule \<Rightarrow> string \<Rightarrow> string option list" where
  "rule_args version rule c =
     (let protocol' = (if version = 6 \<and> protocol rule = Some ''icmp''
                       then Some ''icmpv6'' else protocol rule);
          args = [Some ''-p'', protocol', Some ''-s'', Some c];
          args =
            (if protocol rule = Some ''udp'' \<or> protocol rule = Some ''tcp'' then
               (if from_port rule = to_port rule
                then args @ [Some ''--dport'', Some (str_int (from_port rule))]
                else args @ [Some ''-m'', Some ''multiport'', Some ''--dports'',
                             Some (str_int (from_port rule) @ '':'' @ str_int (to_port rule))])
             else if protocol rule = Some ''icmp'' then
               (let icmp_type = from_port rule;
                    icmp_code = to_port rule;
                    icmp_type_arg =
                      (if icmp_type = - 1 then None
                       else Some (str_int icmp_type @
                                  (if \<not> icmp_code = - 1 then ''/'' @ str_int icmp_code else [])))
                in if truthy icmp_type_arg then
                     (if version = 4
                      then args @ [Some ''-m'', Some ''icmp'', Some ''--icmp-type'', icmp_type_arg]
                      else if version = 6
                      then args @ [Some ''-m'', Some ''icmp6'', Some ''--icmpv6-type'', icmp_type_arg]
                      else args)
                   else args)
             else args)
      in args @ [Some ''-j ACCEPT''])"

text \<open>
  The body of \<^verbatim>\<open>for rule in rules\<close>, on the pair (\<^verbatim>\<open>ipv4_rules\<close>, \<^verbatim>\<open>ipv6_rules\<close>): a
  rule whose CIDR is false is passed over by \<^verbatim>\<open>continue\<close>; otherwise the joined
  arguments are appended to the list its IP version selects (\<^verbatim>\<open>rules += [...]\<close>
  extends in place the list that \<^verbatim>\<open>rules\<close> was bound to two lines before).
\<close>

definition compile_rule ::
  "env \<Rightarrow> security_group_rule \<Rightarrow> string list \<times> string list \<Rightarrow> error + string list \<times> string list"
where
  "compile_rule e rule acc =
     (if \<not> truthy (cidr rule) then Inr acc
      else
        let c = the (cidr rule);
            version = get_ip_version e c
        in case join_args (rule_args version rule c) of
             Inl err \<Rightarrow> Inl err
           | Inr d \<Rightarrow>
               (if version = 4 then Inr (fst acc @ [d], snd acc)
                else Inr (fst acc, snd acc @ [d])))"

fun rules_loop ::
  "env \<Rightarrow> security_group_rule list \<Rightarrow> string list \<times> string list \<Rightarrow> error + string list \<times> string list"
where
  "rules_loop e [] acc = Inr acc"
| "rules_loop e (rule # rules) acc =
     (case compile_rule e rule acc of
        Inl err \<Rightarrow> Inl err
      | Inr acc' \<Rightarrow> rules_loop e rules acc')"

text \<open>\<^verbatim>\<open>for security_group in security_groups\<close>, each group's rules read from the database.\<close>

fun groups_loop ::
  "env \<Rightarrow> security_group list \<Rightarrow> string list \<times> string list \<Rightarrow> error + string list \<times> string list"
where
  "groups_loop e [] acc = Inr acc"
| "groups_loop e (g # gs) acc =
     (case rules_loop e (security_group_rule_get_by_security_group e (sg_id g)) acc of
        Inl err \<Rightarrow> Inl err
      | Inr acc' \<Rightarrow> groups_loop e gs acc')"

text \<open>The directives that precede the security-group rules, for IPv4 and for IPv6.\<close>

definition base_ipv4_rules :: "env \<Rightarrow> network_info_t \<Rightarrow> string list" where
  "base_ipv4_rules e network_info =
     [''-m state --state INVALID -j DROP'',
      ''-m state --state ESTABLISHED,RELATED -j ACCEPT'']
     @ map (\<lambda>(network, _). ''-s '' @ gateway network @ '' -p udp --sport 67 --dport 68 -j ACCEPT'')
         network_info
     @ (if allow_project_net_traffic e
        then map (\<lambda>(network, _). ''-s '' @ net_cidr network @ '' -j ACCEPT'') network_info
        else [])"

definition base_ipv6_rules :: "env \<Rightarrow> network_info_t \<Rightarrow> string list" where
  "base_ipv6_rules e network_info =
     [''-m state --state INVALID -j DROP'',
      ''-m state --state ESTABLISHED,RELATED -j ACCEPT'']
     @ (if use_ipv6 e
        then map (\<lambda>(network, _). ''-s '' @ str_opt (gateway_v6 network) @ ''/128 -p icmpv6 -j ACCEPT'')
               network_info
             @ (if allow_project_net_traffic e
                then map (\<lambda>(network, _). ''-s '' @ str_opt (cidr_v6 network) @ '' -j ACCEPT'')
                       network_info
                else [])
        else [])"

definition instance_rules ::
  "env \<Rightarrow> instance_t \<Rightarrow> network_info_t \<Rightarrow> error + string list \<times> string list"
where
  "instance_rules e instance network_info =
     (let network_info = (if network_info = [] then get_network_info e instance
                          else network_info);
          ipv4_rules = base_ipv4_rules e network_info;
          ipv6_rules = base_ipv6_rules e network_info;
          security_groups = security_group_get_by_instance e (inst_id instance)
      in case groups_loop e security_groups (ipv4_rules, ipv6_rules) of
           Inl err \<Rightarrow> Inl err
         | Inr (ipv4_rules, ipv6_rules) \<Rightarrow>
             Inr (ipv4_rules @ [''-j $sg-fallback''], ipv6_rules @ [''-j $sg-fallback'']))"

text \<open>
  Two readings of the loops, for stating what \<^verbatim>\<open>instance_rules\<close> returns. The rules
  the loops reach past \<^verbatim>\<open>continue\<close>, in the order they reach them: those of each
  group of the instance, group after group, that have a CIDR. And the directive
  \<^verbatim>\<open>' '.join(args)\<close> of such a rule (empty where the join raises).
\<close>

definition attached_rules :: "env \<Rightarrow> instance_t \<Rightarrow> security_group_rule list" where
  "attached_rules e instance =
     filter (\<lambda>rule. truthy (cidr rule))
       (concat (map (\<lambda>g. security_group_rule_get_by_security_group e (sg_id g))
                  (security_group_get_by_instance e (inst_id instance))))"

definition rule_directive :: "env \<Rightarrow> security_group_rule \<Rightarrow> string" where
  "rule_directive e rule =
     (case join_args (rule_args (get_ip_version e (the (cidr rule))) rule (the (cidr rule))) of
        Inl err \<Rightarrow> []
      | Inr d \<Rightarrow> d)"

subsection \<open>The chain tables\<close>

text \<open>
  Modelled from the spec: the chain tables of \<^verbatim>\<open>nova.network.linux_net\<close>
  (\<^verbatim>\<open>linux_net.iptables_manager\<close>), which this module imports and does not define. The
  spec gives them as a capability, "\<^verbatim>\<open>add_chain(name)\<close>, \<^verbatim>\<open>remove_chain(name)\<close>,
  \<^verbatim>\<open>add_rule(chain, ruleSpec)\<close>, \<^verbatim>\<open>apply()\<close> (atomic commit of all staged changes since
  last apply), separate tables for v4/v6". A table is the chains it holds and its rules,
  each rule paired with the chain it was added to, in the order of the \<^verbatim>\<open>add_rule\<close>
  calls; removing a chain removes its rules with it. \<open>ipv4\<close> and \<open>ipv6\<close> stand for
  \<^verbatim>\<open>iptables.ipv4['filter']\<close> and \<^verbatim>\<open>iptables.ipv6['filter']\<close>, the only tables the
  module touches; \<open>applied\<close> is the pair of tables as of the last \<^verbatim>\<open>apply()\<close> and
  \<open>apply_count\<close> the number of \<^verbatim>\<open>apply()\<close> calls so far.

  \<open>events\<close> is a ghost field: it records, in the order they happen, each \<^verbatim>\<open>apply()\<close>
  (\<open>Applied\<close>), each pass of the refresh loop that has refilled the chains of one
  tracked instance (\<open>Restaged\<close> with the instance's id) and each acquisition and
  release of a named lock by the decorator \<^verbatim>\<open>utils.synchronized\<close>. No method reads it.
\<close>

datatype event = Lock_acquired string | Lock_released string | Restaged int | Applied

record iptables_table =
  table_chains :: "string list"
  table_rules :: "(string \<times> string) list"

definition add_chain :: "string \<Rightarrow> iptables_table \<Rightarrow> iptables_table" where
  "add_chain name t = t\<lparr>table_chains := List.insert name (table_chains t)\<rparr>"

definition remove_chain :: "string \<Rightarrow> iptables_table \<Rightarrow> iptables_table" where
  "remove_chain name t =
     t\<lparr>table_chains := removeAll name (table_chains t),
       table_rules := filter (\<lambda>(chain, rule). chain \<noteq> name) (table_rules t)\<rparr>"

definition add_rule :: "string \<Rightarrow> string \<Rightarrow> iptables_table \<Rightarrow> iptables_table" where
  "add_rule chain rule t = t\<lparr>table_rules := table_rules t @ [(chain, rule)]\<rparr>"

text \<open>The rules of one chain, in the order they were added.\<close>

definition chain_rules :: "iptables_table \<Rightarrow> string \<Rightarrow> string list" where
  "chain_rules t name = map snd (filter (\<lambda>(chain, rule). chain = name) (table_rules t))"

record iptables_manager =
  ipv4 :: iptables_table
  ipv6 :: iptables_table
  applied :: "iptables_table \<times> iptables_table"
  apply_count :: nat
  events :: "event list"

definition record_event :: "event \<Rightarrow> iptables_manager \<Rightarrow> iptables_manager" where
  "record_event ev m = m\<lparr>events := events m @ [ev]\<rparr>"

definition iptables_apply :: "iptables_manager \<Rightarrow> iptables_manager" where
  "iptables_apply m =
     record_event Applied
       (m\<lparr>applied := (ipv4 m, ipv6 m), apply_count := Suc (apply_count m)\<rparr>)"

subsection \<open>NWFilterFirewall\<close>

text \<open>
  Modelled from the spec: the libvirt connection, which the module is handed and does
  not define. The spec gives it as a capability, "\<^verbatim>\<open>define(name, xmlOrStructuredSpec)\<close>
  (create-or-replace), \<^verbatim>\<open>lookup(name)\<close> -> exists/error". The field \<open>defined\<close> is the
  documents passed to \<^verbatim>\<open>nwfilterDefineXML\<close> so far, in call order; the lookup is a
  parameter of \<^verbatim>\<open>instance_filter_exists\<close> below. The other two fields are the driver
  object's own flags.
\<close>

record nwfilter_t =
  static_filters_configured :: bool
  handle_security_groups :: bool
  defined :: "string list"

definition nwfilter_init :: "string list \<Rightarrow> nwfilter_t" where
  "nwfilter_init docs =
     \<lparr>static_filters_configured = False, handle_security_groups = False, defined = docs\<rparr>"

definition quoted :: "string \<Rightarrow> string" where
  "quoted s = sq @ s @ sq"

definition filter_container :: "string \<Rightarrow> string list \<Rightarrow> string" where
  "filter_container name filters =
     ''<filter name='' @ quoted name @ '' chain='root'>''
     @ concat (map (\<lambda>f. ''<filterref filter='' @ quoted f @ ''/>'') filters)
     @ ''</filter>''"

definition define_filter :: "string \<Rightarrow> nwfilter_t \<Rightarrow> nwfilter_t" where
  "define_filter xml st = st\<lparr>defined := defined st @ [xml]\<rparr>"

definition define_filters :: "string \<Rightarrow> string list \<Rightarrow> nwfilter_t \<Rightarrow> nwfilter_t" where
  "define_filters filter_name filter_children st =
     define_filter (filter_container filter_name filter_children) st"

definition instance_filter_name :: "instance_t \<Rightarrow> string option \<Rightarrow> string" where
  "instance_filter_name instance nic_id =
     (if \<not> truthy nic_id then ''nova-instance-'' @ inst_name instance
      else ''nova-instance-'' @ inst_name instance @ ''-'' @ the nic_id)"

text \<open>\<^verbatim>\<open>NWFilterFirewall.unfilter_instance\<close>: the body is \<^verbatim>\<open>pass\<close>.\<close>

definition nwfilter_unfilter_instance :: "instance_t \<Rightarrow> nwfilter_t \<Rightarrow> nwfilter_t" where
  "nwfilter_unfilter_instance instance st = st"

text \<open>
  \<^verbatim>\<open>security_group_to_nwfilter_xml\<close>. \<open>v6protocol\<close> is the dictionary of that name; a
  protocol it does not hold raises \<^verbatim>\<open>KeyError\<close>. \<open>rule_to_xml\<close> is what one pass of
  \<^verbatim>\<open>for rule in security_group.rules\<close> appends to \<^verbatim>\<open>rule_xml\<close>.
\<close>

definition v6protocol :: "string option \<Rightarrow> string option" where
  "v6protocol p =
     (if p = Some ''tcp'' then Some ''tcp-ipv6''
      else if p = Some ''udp'' then Some ''udp-ipv6''
      else if p = Some ''icmp'' then Some ''icmpv6''
      else None)"

definition rule_match_xml :: "security_group_rule \<Rightarrow> string" where
  "rule_match_xml rule =
     (if protocol rule = Some ''tcp'' \<or> protocol rule = Some ''udp'' then
        ''dstportstart='' @ quoted (str_int (from_port rule))
        @ '' dstportend='' @ quoted (str_int (to_port rule)) @ '' ''
      else if protocol rule = Some ''icmp'' then
        (if from_port rule \<noteq> - 1 then ''type='' @ quoted (str_int (from_port rule)) @ '' '' else [])
        @ (if to_port rule \<noteq> - 1 then ''code='' @ quoted (str_int (to_port rule)) @ '' '' else [])
      else [])"

definition rule_to_xml :: "env \<Rightarrow> security_group_rule \<Rightarrow> error + string" where
  "rule_to_xml e rule =
     (let rule_xml = ''<rule action='accept' direction='in' priority='300'>''
      in if truthy (cidr rule) then
           (let c = the (cidr rule);
                version = get_ip_version e c
            in case (if use_ipv6 e \<and> version = 6 then
                       (let (net, prefixlen) = get_net_and_prefixlen e c
                        in case v6protocol (protocol rule) of
                             None \<Rightarrow> Inl KeyError
                           | Some p \<Rightarrow>
                               Inr (''<'' @ p @ '' srcipaddr='' @ quoted net
                                    @ '' srcipmask='' @ quoted prefixlen @ '' ''))
                     else
                       (let (net, mask) = get_net_and_mask e c
                        in Inr (''<'' @ str_opt (protocol rule) @ '' srcipaddr='' @ quoted net
                                @ '' srcipmask='' @ quoted mask @ '' ''))) of
                 Inl err \<Rightarrow> Inl err
               | Inr element \<Rightarrow>
                   Inr (rule_xml @ element @ rule_match_xml rule @ ''/>\<newline>''
                        @ ''</rule>\<newline>''))
         else Inr (rule_xml @ ''</rule>\<newline>''))"

fun rules_to_xml :: "env \<Rightarrow> security_group_rule list \<Rightarrow> string \<Rightarrow> error + string" where
  "rules_to_xml e [] rule_xml = Inr rule_xml"
| "rules_to_xml e (rule # rules) rule_xml =
     (case rule_to_xml e rule of
        Inl err \<Rightarrow> Inl err
      | Inr x \<Rightarrow> rules_to_xml e rules (rule_xml @ x))"

definition security_group_to_nwfilter_xml :: "env \<Rightarrow> int \<Rightarrow> error + string" where
  "security_group_to_nwfilter_xml e security_group_id =
     (let security_group = security_group_get e security_group_id
      in case rules_to_xml e (sg_rules security_group) [] of
           Inl err \<Rightarrow> Inl err
         | Inr rule_xml \<Rightarrow>
             Inr (''<filter name='' @ quoted (''nova-secgroup-'' @ str_int security_group_id) @ '' ''
                  @ (if use_ipv6 e then ''chain='root'>'' @ rule_xml @ ''</filter>''
                     else ''chain='ipv4'>'' @ rule_xml @ ''</filter>'')))"

text \<open>
  What one rule adds to \<^verbatim>\<open>rule_xml\<close>, for stating what the document holds (empty where
  the rule raises).
\<close>

definition rule_element :: "env \<Rightarrow> security_group_rule \<Rightarrow> string" where
  "rule_element e rule = (case rule_to_xml e rule of Inl err \<Rightarrow> [] | Inr x \<Rightarrow> x)"

definition nwfilter_refresh_security_group_rules ::
  "env \<Rightarrow> int \<Rightarrow> nwfilter_t \<Rightarrow> error + nwfilter_t"
where
  "nwfilter_refresh_security_group_rules e security_group_id st =
     (case security_group_to_nwfilter_xml e security_group_id of
        Inl err \<Rightarrow> Inl err
      | Inr xml \<Rightarrow> Inr (define_filter xml st))"

text \<open>\<^verbatim>\<open>_create_network_filters\<close>: one (name, children) pair for each NIC.\<close>

definition create_network_filters ::
  "env \<Rightarrow> instance_t \<Rightarrow> network_info_t \<Rightarrow> string \<Rightarrow> (string \<times> string list) list"
where
  "create_network_filters e instance network_info instance_secgroup_filter_name =
     (let base_filter = (if image_ref instance = vpn_image_id e then ''nova-vpn'' else ''nova-base'')
      in map (\<lambda>(_, mapping).
                let nic_id = strip_colons (mac mapping);
                    instance_filter_name = instance_filter_name instance (Some nic_id);
                    instance_filter_children = [base_filter, instance_secgroup_filter_name];
                    instance_filter_children =
                      (if allow_project_net_traffic e
                       then instance_filter_children @ [''nova-project'']
                            @ (if use_ipv6 e then [''nova-project-v6''] else [])
                       else instance_filter_children)
                in (instance_filter_name, instance_filter_children))
           network_info)"

text \<open>
  The loop \<^verbatim>\<open>for security_group in db.security_group_get_by_instance(...)\<close> of
  \<^verbatim>\<open>prepare_instance_filter\<close>: it carries the growing list of children and the driver,
  and defines the instance's security-group filter once in each pass.
\<close>

fun secgroup_loop ::
  "env \<Rightarrow> string \<Rightarrow> security_group list \<Rightarrow> string list \<times> nwfilter_t \<Rightarrow> error + string list \<times> nwfilter_t"
where
  "secgroup_loop e instance_secgroup_filter_name [] acc = Inr acc"
| "secgroup_loop e instance_secgroup_filter_name (security_group # groups) acc =
     (case nwfilter_refresh_security_group_rules e (sg_id security_group) (snd acc) of
        Inl err \<Rightarrow> Inl err
      | Inr st \<Rightarrow>
          (let children = fst acc @ [''nova-secgroup-'' @ str_int (sg_id security_group)];
               st = define_filter (filter_container instance_secgroup_filter_name children) st
           in secgroup_loop e instance_secgroup_filter_name groups (children, st)))"

definition nwfilter_prepare_instance_filter ::
  "env \<Rightarrow> instance_t \<Rightarrow> network_info_t \<Rightarrow> nwfilter_t \<Rightarrow> error + nwfilter_t"
where
  "nwfilter_prepare_instance_filter e instance network_info st =
     (let network_info = (if network_info = [] then get_network_info e instance
                          else network_info);
          instance_secgroup_filter_name = instance_filter_name instance None @ ''-secgroup'';
          instance_secgroup_filter_children =
            [''nova-base-ipv4'', ''nova-base-ipv6'', ''nova-allow-dhcp-server''];
          instance_secgroup_filter_children =
            (if use_ipv6 e \<and> filter (\<lambda>(network, _). truthy (gateway_v6 network)) network_info \<noteq> []
             then instance_secgroup_filter_children @ [''nova-allow-ra-server'']
             else instance_secgroup_filter_children)
      in case secgroup_loop e instance_secgroup_filter_name
                (security_group_get_by_instance e (inst_id instance))
                (instance_secgroup_filter_children, st) of
           Inl err \<Rightarrow> Inl err
         | Inr (_, st) \<Rightarrow>
             Inr (fold (\<lambda>(name, children). define_filters name children)
                    (create_network_filters e instance network_info instance_secgroup_filter_name)
                    st))"

text \<open>
  \<^verbatim>\<open>instance_filter_exists\<close>. \<open>lookup name\<close> is true when
  \<^verbatim>\<open>self._conn.nwfilterLookupByName(name)\<close> returns and false when it raises
  \<^verbatim>\<open>libvirt.libvirtError\<close>. The result is the returned boolean with the messages
  given to \<^verbatim>\<open>LOG.debug\<close>.
\<close>

fun filter_exists_loop ::
  "(string \<Rightarrow> bool) \<Rightarrow> instance_t \<Rightarrow> network_info_t \<Rightarrow> bool \<times> string list"
where
  "filter_exists_loop lookup instance [] = (True, [])"
| "filter_exists_loop lookup instance ((network, mapping) # network_info) =
     (let nic_id = strip_colons (mac mapping);
          instance_filter_name = instance_filter_name instance (Some nic_id)
      in if lookup instance_filter_name then filter_exists_loop lookup instance network_info
         else (False, [''The nwfilter('' @ instance_filter_name @ '') for''
                       @ inst_name instance @ '' is not found.'']))"

definition nwfilter_instance_filter_exists ::
  "env \<Rightarrow> (string \<Rightarrow> bool) \<Rightarrow> instance_t \<Rightarrow> bool \<times> string list"
where
  "nwfilter_instance_filter_exists e lookup instance =
     filter_exists_loop lookup instance (get_network_info e instance)"

subsection \<open>IptablesFirewallDriver\<close>

text \<open>
  The driver object. \<^verbatim>\<open>self.instances\<close> is a dictionary from instance id to instance;
  it is an association list here, read in list order by \<^verbatim>\<open>self.instances.values()\<close>.
  \<^verbatim>\<open>self.iptables\<close> is the chain-table manager and \<^verbatim>\<open>self.nwfilter\<close> the
  \<^verbatim>\<open>NWFilterFirewall\<close> the driver creates for itself; \<open>logged\<close> collects the messages
  given to \<^verbatim>\<open>LOG.info\<close>.
\<close>

record iptables_driver =
  instances :: "(int \<times> instance_t) list"
  iptables :: iptables_manager
  nwfilter :: nwfilter_t
  logged :: "string list"

text \<open>
  \<^verbatim>\<open>__init__\<close>, given the state of \<^verbatim>\<open>linux_net.iptables_manager\<close> and the documents
  the libvirt connection holds when the driver is built.
\<close>

definition iptables_driver_init :: "iptables_manager \<Rightarrow> string list \<Rightarrow> iptables_driver" where
  "iptables_driver_init m docs =
     (let m = m\<lparr>ipv4 := add_chain ''sg-fallback'' (ipv4 m)\<rparr>;
          m = m\<lparr>ipv4 := add_rule ''sg-fallback'' ''-j DROP'' (ipv4 m)\<rparr>;
          m = m\<lparr>ipv6 := add_chain ''sg-fallback'' (ipv6 m)\<rparr>;
          m = m\<lparr>ipv6 := add_rule ''sg-fallback'' ''-j DROP'' (ipv6 m)\<rparr>
      in \<lparr>instances = [], iptables = m, nwfilter = nwfilter_init docs, logged = []\<rparr>)"

definition instance_chain_name :: "instance_t \<Rightarrow> string" where
  "instance_chain_name instance = ''inst-'' @ str_int (inst_id instance)"

definition create_filter :: "string list \<Rightarrow> string \<Rightarrow> string list" where
  "create_filter ips chain_name = map (\<lambda>ip. ''-d '' @ ip @ '' -j $'' @ chain_name) ips"

definition filters_for_instance ::
  "env \<Rightarrow> string \<Rightarrow> network_info_t \<Rightarrow> string list \<times> string list"
where
  "filters_for_instance e chain_name network_info =
     (let ips_v4 = concat (map (\<lambda>(_, mapping). mapping_ips mapping) network_info);
          ipv4_rules = create_filter ips_v4 chain_name;
          ipv6_rules =
            (if use_ipv6 e
             then create_filter (concat (map (\<lambda>(_, mapping). mapping_ip6s mapping) network_info)) chain_name
             else [])
      in (ipv4_rules, ipv6_rules))"

definition add_filters ::
  "env \<Rightarrow> string \<Rightarrow> string list \<Rightarrow> string list \<Rightarrow> iptables_manager \<Rightarrow> iptables_manager"
where
  "add_filters e chain_name ipv4_rules ipv6_rules m =
     (let m = m\<lparr>ipv4 := fold (add_rule chain_name) ipv4_rules (ipv4 m)\<rparr>
      in if use_ipv6 e then m\<lparr>ipv6 := fold (add_rule chain_name) ipv6_rules (ipv6 m)\<rparr> else m)"

definition add_filters_for_instance ::
  "env \<Rightarrow> instance_t \<Rightarrow> network_info_t \<Rightarrow> iptables_driver \<Rightarrow> error + iptables_driver"
where
  "add_filters_for_instance e instance network_info st =
     (let chain_name = instance_chain_name instance;
          m = iptables st;
          m = (if use_ipv6 e then m\<lparr>ipv6 := add_chain chain_name (ipv6 m)\<rparr> else m);
          m = m\<lparr>ipv4 := add_chain chain_name (ipv4 m)\<rparr>;
          (ipv4_rules, ipv6_rules) = filters_for_instance e chain_name network_info;
          m = add_filters e ''local'' ipv4_rules ipv6_rules m
      in case instance_rules e instance network_info of
           Inl err \<Rightarrow> Inl err
         | Inr (ipv4_rules, ipv6_rules) \<Rightarrow>
             Inr (st\<lparr>iptables := add_filters e chain_name ipv4_rules ipv6_rules m\<rparr>))"

definition remove_filters_for_instance ::
  "env \<Rightarrow> instance_t \<Rightarrow> iptables_driver \<Rightarrow> iptables_driver"
where
  "remove_filters_for_instance e instance st =
     (let chain_name = instance_chain_name instance;
          m = iptables st;
          m = m\<lparr>ipv4 := remove_chain chain_name (ipv4 m)\<rparr>;
          m = (if use_ipv6 e then m\<lparr>ipv6 := remove_chain chain_name (ipv6 m)\<rparr> else m)
      in st\<lparr>iptables := m\<rparr>)"

text \<open>
  \<^verbatim>\<open>unfilter_instance\<close>. \<^verbatim>\<open>self.instances.pop(instance['id'], None)\<close> removes and
  returns the tracked instance (an object, which is true) or returns \<^verbatim>\<open>None\<close> and
  leaves the dictionary as it is.
\<close>

definition unfilter_instance :: "env \<Rightarrow> instance_t \<Rightarrow> iptables_driver \<Rightarrow> iptables_driver" where
  "unfilter_instance e instance st =
     (case map_of (instances st) (inst_id instance) of
        Some _ \<Rightarrow>
          (let st = st\<lparr>instances := AList.delete (inst_id instance) (instances st)\<rparr>;
               st = remove_filters_for_instance e instance st
           in st\<lparr>iptables := iptables_apply (iptables st)\<rparr>)
      | None \<Rightarrow>
          st\<lparr>logged := logged st @
                [''Attempted to unfilter instance '' @ str_int (inst_id instance)
                 @ '' which is not filtered'']\<rparr>)"

definition prepare_instance_filter ::
  "env \<Rightarrow> instance_t \<Rightarrow> network_info_t \<Rightarrow> iptables_driver \<Rightarrow> error + iptables_driver"
where
  "prepare_instance_filter e instance network_info st =
     (let network_info = (if network_info = [] then get_network_info e instance
                          else network_info);
          st = st\<lparr>instances := AList.update (inst_id instance) instance (instances st)\<rparr>
      in case add_filters_for_instance e instance network_info st of
           Inl err \<Rightarrow> Inl err
         | Inr st \<Rightarrow> Inr (st\<lparr>iptables := iptables_apply (iptables st)\<rparr>))"

text \<open>
  \<^verbatim>\<open>do_refresh_security_group_rules\<close>: the loop over \<^verbatim>\<open>self.instances.values()\<close>.
  \<^verbatim>\<open>network_info\<close> is a local variable of the method, assigned inside the loop, so the
  value one pass leaves in it is the value the next pass tests. A pass that has refilled
  its instance's chains is recorded as \<open>Restaged\<close>.
\<close>

fun do_refresh_loop ::
  "env \<Rightarrow> instance_t list \<Rightarrow> network_info_t \<Rightarrow> iptables_driver \<Rightarrow> error + iptables_driver"
where
  "do_refresh_loop e [] network_info st = Inr st"
| "do_refresh_loop e (instance # rest) network_info st =
     (let st = remove_filters_for_instance e instance st;
          network_info = (if network_info = [] then get_network_info e instance
                          else network_info)
      in case add_filters_for_instance e instance network_info st of
           Inl err \<Rightarrow> Inl err
         | Inr st \<Rightarrow>
             do_refresh_loop e rest network_info
               (st\<lparr>iptables := record_event (Restaged (inst_id instance)) (iptables st)\<rparr>))"

text \<open>
  Modelled from the spec: the decorator \<^verbatim>\<open>@utils.synchronized('iptables', external=True)\<close>
  on \<^verbatim>\<open>do_refresh_security_group_rules\<close>; \<^verbatim>\<open>nova.utils\<close> is not part of the module.
  The spec calls it "a named mutual-exclusion lock (host-scoped, crossing call
  boundaries)" that wraps the method: the lock of that name is acquired before the
  method's body runs and released when the body has returned.
\<close>

definition do_refresh_security_group_rules ::
  "env \<Rightarrow> int \<Rightarrow> network_info_t \<Rightarrow> iptables_driver \<Rightarrow> error + iptables_driver"
where
  "do_refresh_security_group_rules e security_group network_info st =
     (let st = st\<lparr>iptables := record_event (Lock_acquired ''iptables'') (iptables st)\<rparr>
      in case do_refresh_loop e (map snd (instances st)) network_info st of
           Inl err \<Rightarrow> Inl err
         | Inr st \<Rightarrow>
             Inr (st\<lparr>iptables := record_event (Lock_released ''iptables'') (iptables st)\<rparr>))"

definition refresh_security_group_rules ::
  "env \<Rightarrow> int \<Rightarrow> network_info_t \<Rightarrow> iptables_driver \<Rightarrow> error + iptables_driver"
where
  "refresh_security_group_rules e security_group network_info st =
     (case do_refresh_security_group_rules e security_group network_info st of
        Inl err \<Rightarrow> Inl err
      | Inr st \<Rightarrow> Inr (st\<lparr>iptables := iptables_apply (iptables st)\<rparr>))"

subsection \<open>Example data\<close>

text \<open>
  A host with instances of one NIC each: instance 1 on one network, the others on
  another. Instances 1 and 2 are attached to security group 1, whose one rule opens TCP
  port 22 to \<^verbatim>\<open>0.0.0.0/0\<close>; instance 3 is attached to no group, instance 4 to group 3
  and instance 5 to group 4. Group 2 holds one rule that has no CIDR; group 3 one ICMP
  rule with type \<open>-1\<close> and code \<open>3\<close>; group 4 an ICMP rule with type \<open>8\<close> and
  code \<open>-1\<close>, a rule for the UDP ports 8000 to 8080 and a rule for TCP port 22. IPv6
  and project-network traffic are switched off. A CIDR with a colon in it is taken as
  IPv6.
\<close>

definition example_network :: "int \<Rightarrow> network_t" where
  "example_network i =
     (if i = 1
      then \<lparr>gateway = ''10.0.0.1'', net_cidr = ''10.0.0.0/24'', gateway_v6 = None, cidr_v6 = None\<rparr>
      else \<lparr>gateway = ''10.0.1.1'', net_cidr = ''10.0.1.0/24'', gateway_v6 = None, cidr_v6 = None\<rparr>)"

definition example_mapping :: "int \<Rightarrow> mapping_t" where
  "example_mapping i =
     (if i = 1
      then \<lparr>mac = ''aa:bb:cc:dd:ee:ff'', mapping_ips = [''10.0.0.5''], mapping_ip6s = []\<rparr>
      else \<lparr>mac = ''aa:bb:cc:dd:ee:00'', mapping_ips = [''10.0.1.5''], mapping_ip6s = []\<rparr>)"

definition example_rules :: "int \<Rightarrow> security_group_rule list" where
  "example_rules g =
     (if g = 1 then [\<lparr>protocol = Some ''tcp'', cidr = Some ''0.0.0.0/0'', from_port = 22, to_port = 22\<rparr>]
      else if g = 2 then [\<lparr>protocol = None, cidr = None, from_port = - 1, to_port = - 1\<rparr>]
      else if g = 3
      then [\<lparr>protocol = Some ''icmp'', cidr = Some ''0.0.0.0/0'', from_port = - 1, to_port = 3\<rparr>]
      else if g = 4
      then [\<lparr>protocol = Some ''icmp'', cidr = Some ''0.0.0.0/0'', from_port = 8, to_port = - 1\<rparr>,
            \<lparr>protocol = Some ''udp'', cidr = Some ''0.0.0.0/0'', from_port = 8000, to_port = 8080\<rparr>,
            \<lparr>protocol = Some ''tcp'', cidr = Some ''0.0.0.0/0'', from_port = 22, to_port = 22\<rparr>]
      else [])"

definition example_env :: env where
  "example_env =
     \<lparr>use_ipv6 = False, allow_project_net_traffic = False, vpn_image_id = ''0'',
      get_network_info = (\<lambda>instance. [(example_network (inst_id instance), example_mapping (inst_id instance))]),
      security_group_get_by_instance =
        (\<lambda>i. if i = 3 then []
             else if i = 4 then [\<lparr>sg_id = 3, sg_rules = example_rules 3\<rparr>]
             else if i = 5 then [\<lparr>sg_id = 4, sg_rules = example_rules 4\<rparr>]
             else [\<lparr>sg_id = 1, sg_rules = example_rules 1\<rparr>]),
      security_group_rule_get_by_security_group = example_rules,
      security_group_get = (\<lambda>g. \<lparr>sg_id = g, sg_rules = example_rules g\<rparr>),
      get_ip_version = (\<lambda>c. if CHR '':'' \<in> set c then 6 else 4),
      get_net_and_mask = (\<lambda>c. (''0.0.0.0'', ''0.0.0.0'')),
      get_net_and_prefixlen = (\<lambda>c. (''::'', ''0''))\<rparr>"

definition example_instance :: "int \<Rightarrow> instance_t" where
  "example_instance i = \<lparr>inst_id = i, inst_name = ''instance-'' @ str_int i, image_ref = ''1''\<rparr>"

definition empty_table :: iptables_table where
  "empty_table = \<lparr>table_chains = [], table_rules = []\<rparr>"

definition empty_manager :: iptables_manager where
  "empty_manager =
     \<lparr>ipv4 = empty_table, ipv6 = empty_table, applied = (empty_table, empty_table),
      apply_count = 0, events = []\<rparr>"

text \<open>
  The Iptables driver built on empty tables, after \<^verbatim>\<open>prepare_instance_filter\<close> for
  instance 1 and then for instance 2; and the same driver after one more call,
  \<^verbatim>\<open>refresh_security_group_rules\<close> with no \<^verbatim>\<open>network_info\<close> argument.
\<close>

definition example_prepared :: "error + iptables_driver" where
  "example_prepared =
     (case prepare_instance_filter example_env (example_instance 1) []
             (iptables_driver_init empty_manager []) of
        Inl err \<Rightarrow> Inl err
      | Inr st \<Rightarrow> prepare_instance_filter example_env (example_instance 2) [] st)"

definition example_refreshed :: "error + iptables_driver" where
  "example_refreshed =
     (case example_prepared of
        Inl err \<Rightarrow> Inl err
      | Inr st \<Rightarrow> refresh_security_group_rules example_env 1 [] st)"

text \<open>
  The documents that \<^verbatim>\<open>NWFilterFirewall.prepare_instance_filter\<close> defines for instance
  1: the filter of security group 1, the instance's security-group filter and the
  filter of its NIC.
\<close>

definition example_filters :: "string list" where
  "example_filters =
     [''<filter name='nova-secgroup-1' chain='ipv4'>''
      @ ''<rule action='accept' direction='in' priority='300'>''
      @ ''<tcp srcipaddr='0.0.0.0' srcipmask='0.0.0.0' dstportstart='22' dstportend='22' />\<newline>''
      @ ''</rule>\<newline></filter>'',
      ''<filter name='nova-instance-instance-1-secgroup' chain='root'>''
      @ ''<filterref filter='nova-base-ipv4'/><filterref filter='nova-base-ipv6'/>''
      @ ''<filterref filter='nova-allow-dhcp-server'/><filterref filter='nova-secgroup-1'/>''
      @ ''</filter>'',
      ''<filter name='nova-instance-instance-1-aabbccddeeff' chain='root'>''
      @ ''<filterref filter='nova-base'/>''
      @ ''<filterref filter='nova-instance-instance-1-secgroup'/></filter>'']"

section \<open>Properties\<close>

subsection \<open>Evaluation and helper lemmas\<close>

lemmas example_defs = example_env_def example_instance_def example_rules_def
  example_network_def example_mapping_def empty_manager_def empty_table_def

lemmas eval_defs = instance_rules_def base_ipv4_rules_def base_ipv6_rules_def
  compile_rule_def rule_args_def join_args_def str_int_def str_nat.simps Let_def

lemmas driver_defs = prepare_instance_filter_def refresh_security_group_rules_def
  do_refresh_security_group_rules_def add_filters_for_instance_def remove_filters_for_instance_def
  add_filters_def filters_for_instance_def create_filter_def instance_chain_name_def
  iptables_driver_init_def iptables_apply_def record_event_def add_chain_def remove_chain_def
  add_rule_def
  chain_rules_def nwfilter_init_def

lemma str_nat_nonempty: "str_nat n \<noteq> []"
  by (subst str_nat.simps) simp

lemma str_int_nonempty: "str_int i \<noteq> []"
  by (simp add: str_int_def str_nat_nonempty)

text \<open>The join raises only for a rule without a protocol.\<close>

lemma rule_args_no_None:
  "protocol rule \<noteq> None \<Longrightarrow> None \<notin> set (rule_args version rule c)"
  by (auto simp: rule_args_def Let_def)

lemma compile_rule_returns:
  assumes "truthy (cidr rule) \<longrightarrow> protocol rule \<noteq> None"
  shows "\<exists>acc'. compile_rule e rule acc = Inr acc'"
  using assms by (auto simp: compile_rule_def Let_def join_args_def rule_args_no_None)

lemma rules_loop_returns:
  assumes "\<forall>rule \<in> set rules. truthy (cidr rule) \<longrightarrow> protocol rule \<noteq> None"
  shows "\<exists>acc'. rules_loop e rules acc = Inr acc'"
  using assms
proof (induction rules arbitrary: acc)
  case Nil
  then show ?case by simp
next
  case (Cons rule rules)
  from Cons.prems obtain acc1 where "compile_rule e rule acc = Inr acc1"
    using compile_rule_returns [of rule e acc] by auto
  moreover from Cons have "\<exists>acc'. rules_loop e rules acc1 = Inr acc'" by simp
  ultimately show ?case by simp
qed

lemma groups_loop_returns:
  assumes "\<forall>g \<in> set gs. \<forall>rule \<in> set (security_group_rule_get_by_security_group e (sg_id g)).
             truthy (cidr rule) \<longrightarrow> protocol rule \<noteq> None"
  shows "\<exists>acc'. groups_loop e gs acc = Inr acc'"
  using assms
proof (induction gs arbitrary: acc)
  case Nil
  then show ?case by simp
next
  case (Cons g gs)
  from Cons.prems obtain acc1
    where "rules_loop e (security_group_rule_get_by_security_group e (sg_id g)) acc = Inr acc1"
    using rules_loop_returns [of "security_group_rule_get_by_security_group e (sg_id g)" e acc]
    by auto
  moreover from Cons have "\<exists>acc'. groups_loop e gs acc1 = Inr acc'" by simp
  ultimately show ?case by simp
qed

lemma instance_rules_last:
  assumes "instance_rules e instance network_info = Inr (ipv4_rules, ipv6_rules)"
  shows "ipv4_rules \<noteq> [] \<and> last ipv4_rules = ''-j $sg-fallback'' \<and>
         ipv6_rules \<noteq> [] \<and> last ipv6_rules = ''-j $sg-fallback''"
  using assms by (auto simp: instance_rules_def Let_def split: sum.splits prod.splits)

lemma instance_rules_returns:
  assumes "\<forall>g \<in> set (security_group_get_by_instance e (inst_id instance)).
             \<forall>rule \<in> set (security_group_rule_get_by_security_group e (sg_id g)).
               truthy (cidr rule) \<longrightarrow> protocol rule \<noteq> None"
  shows "\<exists>ipv4_rules ipv6_rules. instance_rules e instance network_info = Inr (ipv4_rules, ipv6_rules)"
proof -
  let ?ni = "if network_info = [] then get_network_info e instance else network_info"
  obtain acc' where
    "groups_loop e (security_group_get_by_instance e (inst_id instance))
       (base_ipv4_rules e ?ni, base_ipv6_rules e ?ni) = Inr acc'"
    using groups_loop_returns [OF assms] by blast
  then show ?thesis
    by (cases acc') (simp add: instance_rules_def Let_def)
qed

text \<open>Defaulting the network information twice is defaulting it once.\<close>

lemma instance_rules_default:
  "instance_rules e instance
     (if network_info = [] then get_network_info e instance else network_info) =
   instance_rules e instance network_info"
  by (simp add: instance_rules_def)

text \<open>The directive lists of instance 1, as in the worked example of the specification.\<close>

lemma example_instance_rules:
  "instance_rules example_env (example_instance 1) [] =
     Inr ([''-m state --state INVALID -j DROP'',
           ''-m state --state ESTABLISHED,RELATED -j ACCEPT'',
           ''-s 10.0.0.1 -p udp --sport 67 --dport 68 -j ACCEPT'',
           ''-p tcp -s 0.0.0.0/0 --dport 22 -j ACCEPT'',
           ''-j $sg-fallback''],
          [''-m state --state INVALID -j DROP'',
           ''-m state --state ESTABLISHED,RELATED -j ACCEPT'',
           ''-j $sg-fallback''])"
  by (simp add: eval_defs example_defs)

text \<open>
  What the loops return, rule by rule: \<^verbatim>\<open>instance_rules\<close> returns its fixed first
  directives, then the directive of each attached rule with a CIDR, in order, in the
  list of the rule's IP version, then the jump to the fallback chain; the document of
  \<^verbatim>\<open>security_group_to_nwfilter_xml\<close> holds the element of each rule of the group, in
  order.
\<close>

lemma compile_rule_directive:
  assumes "compile_rule e rule acc = Inr acc'"
  shows "acc' =
         (if \<not> truthy (cidr rule) then acc
          else if get_ip_version e (the (cidr rule)) = 4
          then (fst acc @ [rule_directive e rule], snd acc)
          else (fst acc, snd acc @ [rule_directive e rule]))"
  using assms
  by (auto simp: compile_rule_def rule_directive_def Let_def split: sum.splits if_splits)

lemma rules_loop_directives:
  assumes "rules_loop e rules acc = Inr acc'"
  shows "fst acc' = fst acc @ map (rule_directive e)
           (filter (\<lambda>rule. get_ip_version e (the (cidr rule)) = 4)
              (filter (\<lambda>rule. truthy (cidr rule)) rules))
       \<and> snd acc' = snd acc @ map (rule_directive e)
           (filter (\<lambda>rule. get_ip_version e (the (cidr rule)) \<noteq> 4)
              (filter (\<lambda>rule. truthy (cidr rule)) rules))"
  using assms
proof (induction rules arbitrary: acc)
  case Nil
  then show ?case by simp
next
  case (Cons rule rules)
  from Cons.prems obtain acc1 where c: "compile_rule e rule acc = Inr acc1"
    and r: "rules_loop e rules acc1 = Inr acc'"
    by (auto split: sum.splits)
  from Cons.IH [OF r] compile_rule_directive [OF c]
  show ?case by auto
qed

lemma groups_loop_directives:
  assumes "groups_loop e gs acc = Inr acc'"
  shows "fst acc' = fst acc @ map (rule_directive e)
           (filter (\<lambda>rule. get_ip_version e (the (cidr rule)) = 4)
              (filter (\<lambda>rule. truthy (cidr rule))
                 (concat (map (\<lambda>g. security_group_rule_get_by_security_group e (sg_id g)) gs))))
       \<and> snd acc' = snd acc @ map (rule_directive e)
           (filter (\<lambda>rule. get_ip_version e (the (cidr rule)) \<noteq> 4)
              (filter (\<lambda>rule. truthy (cidr rule))
                 (concat (map (\<lambda>g. security_group_rule_get_by_security_group e (sg_id g)) gs))))"
  using assms
proof (induction gs arbitrary: acc)
  case Nil
  then show ?case by simp
next
  case (Cons g gs)
  from Cons.prems obtain acc1
    where c: "rules_loop e (security_group_rule_get_by_security_group e (sg_id g)) acc = Inr acc1"
    and r: "groups_loop e gs acc1 = Inr acc'"
    by (auto split: sum.splits)
  from Cons.IH [OF r] rules_loop_directives [OF c]
  show ?case by simp
qed

lemma instance_rules_directives:
  assumes "instance_rules e instance network_info = Inr (ipv4_rules, ipv6_rules)"
  shows "ipv4_rules =
           base_ipv4_rules e (if network_info = [] then get_network_info e instance else network_info)
           @ map (rule_directive e)
               (filter (\<lambda>rule. get_ip_version e (the (cidr rule)) = 4) (attached_rules e instance))
           @ [''-j $sg-fallback'']
       \<and> ipv6_rules =
           base_ipv6_rules e (if network_info = [] then get_network_info e instance else network_info)
           @ map (rule_directive e)
               (filter (\<lambda>rule. get_ip_version e (the (cidr rule)) \<noteq> 4) (attached_rules e instance))
           @ [''-j $sg-fallback'']"
proof -
  let ?ni = "if network_info = [] then get_network_info e instance else network_info"
  from assms obtain acc' where
    g: "groups_loop e (security_group_get_by_instance e (inst_id instance))
          (base_ipv4_rules e ?ni, base_ipv6_rules e ?ni) = Inr acc'"
    and v4: "ipv4_rules = fst acc' @ [''-j $sg-fallback'']"
    and v6: "ipv6_rules = snd acc' @ [''-j $sg-fallback'']"
    by (auto simp: instance_rules_def Let_def split: sum.splits prod.splits)
  from groups_loop_directives [OF g] v4 v6
  show ?thesis by (simp add: attached_rules_def)
qed

lemma rule_directive_tcp_udp:
  assumes "protocol rule = Some ''tcp'' \<or> protocol rule = Some ''udp''"
  shows "rule_directive e rule =
         ''-p '' @ the (protocol rule) @ '' -s '' @ the (cidr rule)
         @ (if from_port rule = to_port rule
            then '' --dport '' @ str_int (from_port rule)
            else '' -m multiport --dports '' @ str_int (from_port rule) @ '':''
                 @ str_int (to_port rule))
         @ '' -j ACCEPT''"
  using assms by (auto simp: rule_directive_def rule_args_def join_args_def Let_def)

lemma rule_directive_icmp:
  assumes "protocol rule = Some ''icmp''"
  shows "rule_directive e rule =
         (let c = the (cidr rule);
              qualifier = str_int (from_port rule)
                          @ (if to_port rule = - 1 then [] else ''/'' @ str_int (to_port rule))
          in if get_ip_version e c = 4 then
               ''-p icmp -s '' @ c
               @ (if from_port rule = - 1 then [] else '' -m icmp --icmp-type '' @ qualifier)
               @ '' -j ACCEPT''
             else if get_ip_version e c = 6 then
               ''-p icmpv6 -s '' @ c
               @ (if from_port rule = - 1 then [] else '' -m icmp6 --icmpv6-type '' @ qualifier)
               @ '' -j ACCEPT''
             else ''-p icmp -s '' @ c @ '' -j ACCEPT'')"
  using assms
  by (simp add: rule_directive_def rule_args_def join_args_def Let_def str_int_nonempty)

lemma rules_to_xml_elements:
  assumes "rules_to_xml e rules rule_xml = Inr x"
  shows "x = rule_xml @ concat (map (rule_element e) rules)"
  using assms
proof (induction rules arbitrary: rule_xml)
  case Nil
  then show ?case by simp
next
  case (Cons rule rules)
  from Cons.prems obtain y where y: "rule_to_xml e rule = Inr y"
    and r: "rules_to_xml e rules (rule_xml @ y) = Inr x"
    by (auto split: sum.splits)
  from Cons.IH [OF r] y show ?case by (simp add: rule_element_def)
qed

lemma security_group_xml_elements:
  assumes "security_group_to_nwfilter_xml e security_group_id = Inr xml"
  shows "xml = ''<filter name='' @ quoted (''nova-secgroup-'' @ str_int security_group_id) @ '' ''
               @ (if use_ipv6 e then ''chain='root'>'' else ''chain='ipv4'>'')
               @ concat (map (rule_element e) (sg_rules (security_group_get e security_group_id)))
               @ ''</filter>''"
  using assms
  by (auto simp: security_group_to_nwfilter_xml_def Let_def split: sum.splits
      dest!: rules_to_xml_elements)

lemma rule_element_icmp:
  assumes "protocol rule = Some ''icmp''" and "truthy (cidr rule)"
  shows "rule_element e rule =
         (let c = the (cidr rule);
              (element, net, mask) =
                (if use_ipv6 e \<and> get_ip_version e c = 6
                 then (''icmpv6'', get_net_and_prefixlen e c)
                 else (''icmp'', get_net_and_mask e c))
          in ''<rule action='accept' direction='in' priority='300'>''
             @ ''<'' @ element @ '' srcipaddr='' @ quoted net @ '' srcipmask='' @ quoted mask @ '' ''
             @ (if from_port rule \<noteq> - 1 then ''type='' @ quoted (str_int (from_port rule)) @ '' ''
                else [])
             @ (if to_port rule \<noteq> - 1 then ''code='' @ quoted (str_int (to_port rule)) @ '' ''
                else [])
             @ ''/>\<newline></rule>\<newline>'')"
  using assms
  by (simp add: rule_element_def rule_to_xml_def rule_match_xml_def v6protocol_def Let_def
      split: prod.splits)

text \<open>The directive lists of instance 5 and the rules behind them.\<close>

lemma example_instance_5_rules:
  "instance_rules example_env (example_instance 5) [] =
     Inr ([''-m state --state INVALID -j DROP'',
           ''-m state --state ESTABLISHED,RELATED -j ACCEPT'',
           ''-s 10.0.1.1 -p udp --sport 67 --dport 68 -j ACCEPT'',
           ''-p icmp -s 0.0.0.0/0 -m icmp --icmp-type 8 -j ACCEPT'',
           ''-p udp -s 0.0.0.0/0 -m multiport --dports 8000:8080 -j ACCEPT'',
           ''-p tcp -s 0.0.0.0/0 --dport 22 -j ACCEPT'',
           ''-j $sg-fallback''],
          [''-m state --state INVALID -j DROP'',
           ''-m state --state ESTABLISHED,RELATED -j ACCEPT'',
           ''-j $sg-fallback''])"
  by (simp add: eval_defs example_defs)

lemma example_attached_rules_5:
  "attached_rules example_env (example_instance 5) =
     [\<lparr>protocol = Some ''icmp'', cidr = Some ''0.0.0.0/0'', from_port = 8, to_port = - 1\<rparr>,
      \<lparr>protocol = Some ''udp'', cidr = Some ''0.0.0.0/0'', from_port = 8000, to_port = 8080\<rparr>,
      \<lparr>protocol = Some ''tcp'', cidr = Some ''0.0.0.0/0'', from_port = 22, to_port = 22\<rparr>]"
  by (simp add: attached_rules_def example_defs)

text \<open>The chain tables.\<close>

lemma chain_rules_add_chain: "chain_rules (add_chain name t) c = chain_rules t c"
  by (simp add: chain_rules_def add_chain_def)

lemma chain_rules_add_rule:
  "chain_rules (add_rule chain rule t) c =
     (if chain = c then chain_rules t c @ [rule] else chain_rules t c)"
  by (simp add: chain_rules_def add_rule_def)

lemma chains_add_rule: "table_chains (add_rule chain rule t) = table_chains t"
  by (simp add: add_rule_def)

lemma chains_add_chain: "set (table_chains (add_chain name t)) = insert name (set (table_chains t))"
  by (simp add: add_chain_def)

lemma remove_chain_chains: "name \<notin> set (table_chains (remove_chain name t))"
  by (simp add: remove_chain_def)

lemma remove_chain_rules: "chain_rules (remove_chain name t) name = []"
  by (auto simp: remove_chain_def chain_rules_def filter_empty_conv)

text \<open>The tracked set under the driver's methods.\<close>

lemma unfilter_untracked:
  assumes "map_of (instances st) (inst_id instance) = None"
  shows "unfilter_instance e instance st =
         st\<lparr>logged := logged st @
              [''Attempted to unfilter instance '' @ str_int (inst_id instance)
               @ '' which is not filtered'']\<rparr>"
  using assms by (simp add: unfilter_instance_def)

lemma remove_filters_instances:
  "instances (remove_filters_for_instance e instance st) = instances st"
  by (simp add: remove_filters_for_instance_def Let_def)

lemma unfilter_instance_untracks:
  "map_of (instances (unfilter_instance e instance st)) (inst_id instance) = None"
  by (cases "map_of (instances st) (inst_id instance)")
     (simp_all add: unfilter_instance_def Let_def remove_filters_instances delete_conv)

lemma add_filters_instances_ok:
  "add_filters_for_instance e instance network_info st = Inr st' \<Longrightarrow>
     instances st' = instances st \<and> nwfilter st' = nwfilter st \<and> logged st' = logged st"
  by (auto simp: add_filters_for_instance_def Let_def split: sum.splits prod.splits)

lemma prepare_instance_filter_tracks:
  assumes "prepare_instance_filter e instance network_info st = Inr st'"
  shows "map_of (instances st') (inst_id instance) = Some instance"
  using assms
  by (auto simp: prepare_instance_filter_def Let_def update_conv
      split: sum.splits dest!: add_filters_instances_ok)

lemma prepare_instance_filter_returns:
  assumes "instance_rules e instance network_info = Inr r"
  shows "\<exists>st'. prepare_instance_filter e instance network_info st = Inr st'"
proof -
  from assms have "instance_rules e instance
     (if network_info = [] then get_network_info e instance else network_info) = Inr r"
    by (simp only: instance_rules_default)
  then show ?thesis
    by (cases r) (simp add: prepare_instance_filter_def add_filters_for_instance_def Let_def
        split: prod.splits)
qed

text \<open>
  A refresh that returns has called \<^verbatim>\<open>apply()\<close> once, after the loop; and once
  \<^verbatim>\<open>network_info\<close> is set, a pass of the loop rebuilds its instance from that value
  and hands the same value to the next pass.
\<close>

lemma add_filters_apply_count:
  "apply_count (add_filters e chain_name ipv4_rules ipv6_rules m) = apply_count m"
  by (simp add: add_filters_def Let_def)

lemma add_filters_events:
  "events (add_filters e chain_name ipv4_rules ipv6_rules m) = events m"
  by (simp add: add_filters_def Let_def)

lemma add_filters_for_instance_apply_count:
  "add_filters_for_instance e instance network_info st = Inr st' \<Longrightarrow>
     apply_count (iptables st') = apply_count (iptables st)"
  by (auto simp: add_filters_for_instance_def add_filters_apply_count Let_def
      split: sum.splits prod.splits)

lemma add_filters_for_instance_events:
  "add_filters_for_instance e instance network_info st = Inr st' \<Longrightarrow>
     events (iptables st') = events (iptables st)"
  by (auto simp: add_filters_for_instance_def add_filters_events Let_def
      split: sum.splits prod.splits)

lemma remove_filters_for_instance_apply_count:
  "apply_count (iptables (remove_filters_for_instance e instance st)) = apply_count (iptables st)"
  by (simp add: remove_filters_for_instance_def Let_def)

lemma remove_filters_for_instance_events:
  "events (iptables (remove_filters_for_instance e instance st)) = events (iptables st)"
  by (simp add: remove_filters_for_instance_def Let_def)

lemma do_refresh_loop_events:
  "do_refresh_loop e insts network_info st = Inr st' \<Longrightarrow>
     events (iptables st') =
       events (iptables st) @ map (\<lambda>tracked. Restaged (inst_id tracked)) insts
     \<and> apply_count (iptables st') = apply_count (iptables st)"
proof (induction insts arbitrary: network_info st)
  case Nil
  then show ?case by simp
next
  case (Cons i rest)
  let ?ni = "if network_info = [] then get_network_info e i else network_info"
  from Cons.prems obtain st1 where
    a: "add_filters_for_instance e i ?ni (remove_filters_for_instance e i st) = Inr st1"
    and r: "do_refresh_loop e rest ?ni
              (st1\<lparr>iptables := record_event (Restaged (inst_id i)) (iptables st1)\<rparr>) = Inr st'"
    by (auto simp: Let_def split: sum.splits)
  from Cons.IH [OF r] add_filters_for_instance_events [OF a]
    add_filters_for_instance_apply_count [OF a]
  show ?case
    by (simp add: record_event_def remove_filters_for_instance_events
        remove_filters_for_instance_apply_count)
qed

lemma do_refresh_loop_apply_count:
  "do_refresh_loop e insts network_info st = Inr st' \<Longrightarrow>
     apply_count (iptables st') = apply_count (iptables st)"
  by (simp add: do_refresh_loop_events)

lemma refresh_applies_once:
  "refresh_security_group_rules e security_group network_info st = Inr st' \<Longrightarrow>
     apply_count (iptables st') = Suc (apply_count (iptables st))"
  by (auto simp: refresh_security_group_rules_def do_refresh_security_group_rules_def
      iptables_apply_def record_event_def Let_def split: sum.splits
      dest!: do_refresh_loop_apply_count)

lemma do_refresh_loop_keeps_network_info:
  assumes "network_info \<noteq> []"
  shows "do_refresh_loop e (instance # rest) network_info st =
         (case add_filters_for_instance e instance network_info
                 (remove_filters_for_instance e instance st) of
            Inl err \<Rightarrow> Inl err
          | Inr st' \<Rightarrow>
              do_refresh_loop e rest network_info
                (st'\<lparr>iptables := record_event (Restaged (inst_id instance)) (iptables st')\<rparr>))"
  using assms by (simp add: Let_def)

lemma example_refresh_returns:
  "\<exists>st st'. example_prepared = Inr st \<and>
     refresh_security_group_rules example_env 1 [] st = Inr st'"
proof -
  have "\<exists>st'. example_refreshed = Inr st'"
    by (simp add: example_refreshed_def example_prepared_def driver_defs eval_defs example_defs)
  then obtain st' where r: "example_refreshed = Inr st'"
    by blast
  show ?thesis
  proof (cases example_prepared)
    case (Inl err)
    from r show ?thesis unfolding example_refreshed_def Inl by simp
  next
    case (Inr st)
    from r show ?thesis unfolding example_refreshed_def Inr by simp
  qed
qed

text \<open>\<^verbatim>\<open>NWFilterFirewall\<close>: the existence check and the per-NIC definitions.\<close>

lemma filter_exists_loop_find:
  "filter_exists_loop lookup instance network_info =
     (case find (\<lambda>(network, mapping).
                   \<not> lookup (instance_filter_name instance (Some (strip_colons (mac mapping)))))
             network_info of
        None \<Rightarrow> (True, [])
      | Some (network, mapping) \<Rightarrow>
          (False, [''The nwfilter(''
                   @ instance_filter_name instance (Some (strip_colons (mac mapping)))
                   @ '') for'' @ inst_name instance @ '' is not found.'']))"
  by (induction network_info) (auto simp: Let_def)

lemma filter_exists_loop_all:
  "fst (filter_exists_loop lookup instance network_info) \<longleftrightarrow>
     (\<forall>(network, mapping) \<in> set network_info.
        lookup (instance_filter_name instance (Some (strip_colons (mac mapping)))))"
  by (induction network_info) (auto simp: Let_def split: if_splits)

lemma fold_define_filters:
  "fold (\<lambda>(name, children). define_filters name children) fs st =
     st\<lparr>defined := defined st @ map (\<lambda>(name, children). filter_container name children) fs\<rparr>"
  by (induction fs arbitrary: st) (auto simp: define_filters_def define_filter_def)

lemma nic_filter_name_not_secgroup:
  assumes "nic_id \<noteq> ''secgroup''"
  shows "instance_filter_name instance (Some nic_id) \<noteq>
         instance_filter_name instance None @ ''-secgroup''"
  using assms by (simp add: instance_filter_name_def)

subsection \<open>C1: the jump to the fallback chain is last, and the fallback chain drops\<close>

text \<open>
  Claim C1. Whatever the instance, its network attachments and its security groups,
  the two lists that \<^verbatim>\<open>instance_rules\<close> returns are not empty and both end with
  \<^verbatim>\<open>-j $sg-fallback\<close>. It does return two lists whenever every rule that has a CIDR
  also names a protocol, which covers an instance with no group and a group with no
  rule (a CIDR rule with no protocol makes \<^verbatim>\<open>' '.join\<close> raise). \<^verbatim>\<open>__init__\<close>, on
  tables that hold no rule of a chain \<^verbatim>\<open>sg-fallback\<close> yet, leaves that chain in the IPv4
  and in the IPv6 table with the single rule \<^verbatim>\<open>-j DROP\<close>.
\<close>

theorem instance_rules_fallback_last:
  "(\<forall>ipv4_rules ipv6_rules.
      instance_rules e instance network_info = Inr (ipv4_rules, ipv6_rules) \<longrightarrow>
        ipv4_rules \<noteq> [] \<and> last ipv4_rules = ''-j $sg-fallback'' \<and>
        ipv6_rules \<noteq> [] \<and> last ipv6_rules = ''-j $sg-fallback'')
   \<and> ((\<forall>g \<in> set (security_group_get_by_instance e (inst_id instance)).
          \<forall>rule \<in> set (security_group_rule_get_by_security_group e (sg_id g)).
            truthy (cidr rule) \<longrightarrow> protocol rule \<noteq> None) \<longrightarrow>
        (\<exists>ipv4_rules ipv6_rules.
           instance_rules e instance network_info = Inr (ipv4_rules, ipv6_rules)))
   \<and> (chain_rules (ipv4 m) ''sg-fallback'' = [] \<and> chain_rules (ipv6 m) ''sg-fallback'' = [] \<longrightarrow>
        ''sg-fallback'' \<in> set (table_chains (ipv4 (iptables (iptables_driver_init m docs)))) \<and>
        chain_rules (ipv4 (iptables (iptables_driver_init m docs))) ''sg-fallback'' = [''-j DROP''] \<and>
        ''sg-fallback'' \<in> set (table_chains (ipv6 (iptables (iptables_driver_init m docs)))) \<and>
        chain_rules (ipv6 (iptables (iptables_driver_init m docs))) ''sg-fallback'' = [''-j DROP''])"
proof (intro conjI allI impI)
  fix ipv4_rules ipv6_rules
  assume r: "instance_rules e instance network_info = Inr (ipv4_rules, ipv6_rules)"
  from instance_rules_last [OF r]
  show "ipv4_rules \<noteq> []" "last ipv4_rules = ''-j $sg-fallback''"
    "ipv6_rules \<noteq> []" "last ipv6_rules = ''-j $sg-fallback''"
    by simp_all
next
  assume "\<forall>g \<in> set (security_group_get_by_instance e (inst_id instance)).
          \<forall>rule \<in> set (security_group_rule_get_by_security_group e (sg_id g)).
            truthy (cidr rule) \<longrightarrow> protocol rule \<noteq> None"
  then show "\<exists>ipv4_rules ipv6_rules.
           instance_rules e instance network_info = Inr (ipv4_rules, ipv6_rules)"
    by (rule instance_rules_returns)
next
  assume h: "chain_rules (ipv4 m) ''sg-fallback'' = [] \<and> chain_rules (ipv6 m) ''sg-fallback'' = []"
  show "''sg-fallback'' \<in> set (table_chains (ipv4 (iptables (iptables_driver_init m docs))))"
    by (simp add: iptables_driver_init_def Let_def chains_add_rule chains_add_chain)
  show "''sg-fallback'' \<in> set (table_chains (ipv6 (iptables (iptables_driver_init m docs))))"
    by (simp add: iptables_driver_init_def Let_def chains_add_rule chains_add_chain)
  from h show "chain_rules (ipv4 (iptables (iptables_driver_init m docs))) ''sg-fallback'' = [''-j DROP'']"
    by (simp add: iptables_driver_init_def Let_def chain_rules_add_rule chain_rules_add_chain)
  from h show "chain_rules (ipv6 (iptables (iptables_driver_init m docs))) ''sg-fallback'' = [''-j DROP'']"
    by (simp add: iptables_driver_init_def Let_def chain_rules_add_rule chain_rules_add_chain)
qed

text \<open>C1 at the instance without groups and at construction on empty tables.\<close>

theorem instance_rules_fallback_last_witness:
  "(\<exists>ipv4_rules ipv6_rules.
      instance_rules example_env (example_instance 3) [] = Inr (ipv4_rules, ipv6_rules) \<and>
      last ipv4_rules = ''-j $sg-fallback'' \<and> last ipv6_rules = ''-j $sg-fallback'')
   \<and> chain_rules (ipv4 empty_manager) ''sg-fallback'' = []
   \<and> chain_rules (ipv6 empty_manager) ''sg-fallback'' = []
   \<and> chain_rules (ipv4 (iptables (iptables_driver_init empty_manager []))) ''sg-fallback'' = [''-j DROP'']
   \<and> chain_rules (ipv6 (iptables (iptables_driver_init empty_manager []))) ''sg-fallback'' = [''-j DROP'']"
proof -
  have groups: "security_group_get_by_instance example_env (inst_id (example_instance 3)) = []"
    by (simp add: example_env_def example_instance_def)
  have empty: "chain_rules (ipv4 empty_manager) ''sg-fallback'' = [] \<and>
               chain_rules (ipv6 empty_manager) ''sg-fallback'' = []"
    by (simp add: empty_manager_def empty_table_def chain_rules_def)
  note inst = instance_rules_fallback_last
    [of example_env "example_instance 3" "[]" empty_manager "[]"]
  from inst groups obtain v4 v6
    where r: "instance_rules example_env (example_instance 3) [] = Inr (v4, v6)"
    by auto
  with inst have "last v4 = ''-j $sg-fallback'' \<and> last v6 = ''-j $sg-fallback''"
    by blast
  with r inst empty show ?thesis by blast
qed

subsection \<open>C2: refresh rebuilds every chain, from the first instance's network\<close>

text \<open>
  Claim C2, at a driver that tracks instances 1 and 2. \<^verbatim>\<open>prepare_instance_filter\<close>
  filled the chain of instance 2 from that instance's own network, whose gateway is
  \<^verbatim>\<open>10.0.1.1\<close>. \<^verbatim>\<open>refresh_security_group_rules\<close>, called with no network information,
  removes and refills the chain of each tracked instance and then applies once (the
  third \<^verbatim>\<open>apply()\<close> after the two of the preparations), but it fills the chain of
  instance 2 from the network of instance 1, gateway \<^verbatim>\<open>10.0.0.1\<close>: the loop assigns
  \<^verbatim>\<open>network_info\<close> in its first pass and the second pass finds it set.
\<close>

theorem refresh_rebuilds_from_first_instance_network:
  "map (\<lambda>(network, mapping). gateway network)
     (get_network_info example_env (example_instance 2)) = [''10.0.1.1'']
   \<and> map_sum id (\<lambda>st. (map fst (instances st), apply_count (iptables st),
                        chain_rules (ipv4 (iptables st)) ''inst-2''))
        example_prepared =
       Inr ([1, 2], 2,
            [''-m state --state INVALID -j DROP'',
             ''-m state --state ESTABLISHED,RELATED -j ACCEPT'',
             ''-s 10.0.1.1 -p udp --sport 67 --dport 68 -j ACCEPT'',
             ''-p tcp -s 0.0.0.0/0 --dport 22 -j ACCEPT'',
             ''-j $sg-fallback''])
   \<and> map_sum id (\<lambda>st. (map fst (instances st), apply_count (iptables st),
                        chain_rules (ipv4 (iptables st)) ''inst-2''))
        example_refreshed =
       Inr ([1, 2], 3,
            [''-m state --state INVALID -j DROP'',
             ''-m state --state ESTABLISHED,RELATED -j ACCEPT'',
             ''-s 10.0.0.1 -p udp --sport 67 --dport 68 -j ACCEPT'',
             ''-p tcp -s 0.0.0.0/0 --dport 22 -j ACCEPT'',
             ''-j $sg-fallback''])"
proof (intro conjI)
  show "map (\<lambda>(network, mapping). gateway network)
     (get_network_info example_env (example_instance 2)) = [''10.0.1.1'']"
    by (simp add: example_defs)
  show "map_sum id (\<lambda>st. (map fst (instances st), apply_count (iptables st),
                        chain_rules (ipv4 (iptables st)) ''inst-2''))
        example_prepared =
       Inr ([1, 2], 2,
            [''-m state --state INVALID -j DROP'',
             ''-m state --state ESTABLISHED,RELATED -j ACCEPT'',
             ''-s 10.0.1.1 -p udp --sport 67 --dport 68 -j ACCEPT'',
             ''-p tcp -s 0.0.0.0/0 --dport 22 -j ACCEPT'',
             ''-j $sg-fallback''])"
    by (simp add: example_prepared_def driver_defs eval_defs example_defs)
  show "map_sum id (\<lambda>st. (map fst (instances st), apply_count (iptables st),
                        chain_rules (ipv4 (iptables st)) ''inst-2''))
        example_refreshed =
       Inr ([1, 2], 3,
            [''-m state --state INVALID -j DROP'',
             ''-m state --state ESTABLISHED,RELATED -j ACCEPT'',
             ''-s 10.0.0.1 -p udp --sport 67 --dport 68 -j ACCEPT'',
             ''-p tcp -s 0.0.0.0/0 --dport 22 -j ACCEPT'',
             ''-j $sg-fallback''])"
    by (simp add: example_refreshed_def example_prepared_def driver_defs eval_defs example_defs)
qed

subsection \<open>C3: what the lock covers\<close>

text \<open>
  Claim C3 fails in its first part, the scope of the lock. At the driver that tracks
  instances 1 and 2, \<^verbatim>\<open>refresh_security_group_rules\<close> acquires the lock \<^verbatim>\<open>iptables\<close>,
  restages both instances, releases the lock and only then calls \<^verbatim>\<open>apply()\<close>: the
  commit is not inside the locked sequence. (The two earlier commits are those of the
  two preparations.)
\<close>

theorem refresh_commits_after_lock_release_counterexample:
  "map_sum id (\<lambda>st. events (iptables st)) example_refreshed =
     Inr [Applied, Applied,
          Lock_acquired ''iptables'', Restaged 1, Restaged 2, Lock_released ''iptables'',
          Applied]"
  by (simp add: example_refreshed_def example_prepared_def driver_defs eval_defs example_defs)

text \<open>
  Claim C3 as amended. Every \<^verbatim>\<open>refresh_security_group_rules\<close> that returns has held
  the lock named \<^verbatim>\<open>iptables\<close> from before the first tracked instance was restaged
  until after the last one was, each tracked instance restaged once in between, and has
  called \<^verbatim>\<open>apply()\<close> once, after the lock was released: the decorator is on
  \<^verbatim>\<open>do_refresh_security_group_rules\<close>, and the commit follows that method's return.
  What callers that run at the same time can observe is not part of the statement.
\<close>

theorem refresh_lock_covers_restaging_only:
  assumes "refresh_security_group_rules e security_group network_info st = Inr st'"
  shows "events (iptables st') =
           events (iptables st)
           @ [Lock_acquired ''iptables'']
           @ map (\<lambda>(i, tracked). Restaged (inst_id tracked)) (instances st)
           @ [Lock_released ''iptables'', Applied]
       \<and> apply_count (iptables st') = Suc (apply_count (iptables st))"
proof -
  let ?st0 = "st\<lparr>iptables := record_event (Lock_acquired ''iptables'') (iptables st)\<rparr>"
  from assms obtain st1 where
    l: "do_refresh_loop e (map snd (instances st)) network_info ?st0 = Inr st1"
    and r: "st' = st1\<lparr>iptables := iptables_apply
              (record_event (Lock_released ''iptables'') (iptables st1))\<rparr>"
    by (auto simp: refresh_security_group_rules_def do_refresh_security_group_rules_def
        Let_def split: sum.splits)
  from do_refresh_loop_events [OF l]
  have "events (iptables st1) =
          events (iptables st) @ [Lock_acquired ''iptables'']
          @ map (\<lambda>(i, tracked). Restaged (inst_id tracked)) (instances st)"
    and "apply_count (iptables st1) = apply_count (iptables st)"
    by (simp_all add: record_event_def split_def comp_def)
  with r show ?thesis
    by (simp add: iptables_apply_def record_event_def)
qed

text \<open>The amended C3 at the driver that tracks instances 1 and 2.\<close>

theorem refresh_lock_covers_restaging_only_witness:
  "\<exists>st st'. example_prepared = Inr st
     \<and> refresh_security_group_rules example_env 1 [] st = Inr st'
     \<and> events (iptables st') =
           events (iptables st)
           @ [Lock_acquired ''iptables'']
           @ map (\<lambda>(i, tracked). Restaged (inst_id tracked)) (instances st)
           @ [Lock_released ''iptables'', Applied]"
proof -
  from example_refresh_returns obtain st st' where
    p: "example_prepared = Inr st"
    and r: "refresh_security_group_rules example_env 1 [] st = Inr st'"
    by blast
  from refresh_lock_covers_restaging_only [OF r] p r show ?thesis by blast
qed

subsection \<open>C4: ICMP type and code\<close>

text \<open>
  Claim C4 fails for the nwfilter document. Security group 3 holds one ICMP rule with
  type \<open>-1\<close> and code \<open>3\<close>. For instance 4, which is attached to that group,
  \<^verbatim>\<open>instance_rules\<close> returns a directive with neither type nor code, while the
  document of \<^verbatim>\<open>security_group_to_nwfilter_xml\<close> for the group carries the code
  attribute with no type attribute beside it: the two backends do not encode alike.
\<close>

theorem icmp_code_without_type_counterexample:
  "security_group_rule_get_by_security_group example_env 3 =
     [\<lparr>protocol = Some ''icmp'', cidr = Some ''0.0.0.0/0'', from_port = - 1, to_port = 3\<rparr>]
   \<and> sg_rules (security_group_get example_env 3) =
     [\<lparr>protocol = Some ''icmp'', cidr = Some ''0.0.0.0/0'', from_port = - 1, to_port = 3\<rparr>]
   \<and> map sg_id (security_group_get_by_instance example_env (inst_id (example_instance 4))) = [3]
   \<and> instance_rules example_env (example_instance 4) [] =
       Inr ([''-m state --state INVALID -j DROP'',
             ''-m state --state ESTABLISHED,RELATED -j ACCEPT'',
             ''-s 10.0.1.1 -p udp --sport 67 --dport 68 -j ACCEPT'',
             ''-p icmp -s 0.0.0.0/0 -j ACCEPT'',
             ''-j $sg-fallback''],
            [''-m state --state INVALID -j DROP'',
             ''-m state --state ESTABLISHED,RELATED -j ACCEPT'',
             ''-j $sg-fallback''])
   \<and> security_group_to_nwfilter_xml example_env 3 =
       Inr (''<filter name='nova-secgroup-3' chain='ipv4'>''
            @ ''<rule action='accept' direction='in' priority='300'>''
            @ ''<icmp srcipaddr='0.0.0.0' srcipmask='0.0.0.0' code='3' />\<newline></rule>\<newline>''
            @ ''</filter>'')"
  by (simp add: eval_defs security_group_to_nwfilter_xml_def rule_to_xml_def rule_match_xml_def
      quoted_def sq_def example_defs)

text \<open>
  Claim C4 as amended. The lists that \<^verbatim>\<open>instance_rules\<close> returns hold, between the
  fixed first directives and the jump to the fallback chain, one directive for each
  attached rule with a CIDR, in order. For an ICMP rule that directive carries no type
  qualifier when the type is \<open>-1\<close> (and no code, whatever the code is); otherwise,
  for IP version 4 or 6, it carries \<^verbatim>\<open>--icmp-type\<close> or \<^verbatim>\<open>--icmpv6-type\<close> with the
  type, followed by \<^verbatim>\<open>/code\<close> only when the code is not \<open>-1\<close>. The document of
  \<^verbatim>\<open>security_group_to_nwfilter_xml\<close> holds one element for each rule of the group, in
  order. For an ICMP rule with a CIDR that element has the attribute \<^verbatim>\<open>type\<close> exactly
  when the type is not \<open>-1\<close> and the attribute \<^verbatim>\<open>code\<close> exactly when the code is not
  \<open>-1\<close>, each independently of the other.
\<close>

theorem icmp_type_code_encoding:
  "(instance_rules e instance network_info = Inr (ipv4_rules, ipv6_rules) \<longrightarrow>
      ipv4_rules =
        base_ipv4_rules e (if network_info = [] then get_network_info e instance else network_info)
        @ map (rule_directive e)
            (filter (\<lambda>rule. get_ip_version e (the (cidr rule)) = 4) (attached_rules e instance))
        @ [''-j $sg-fallback'']
      \<and> ipv6_rules =
        base_ipv6_rules e (if network_info = [] then get_network_info e instance else network_info)
        @ map (rule_directive e)
            (filter (\<lambda>rule. get_ip_version e (the (cidr rule)) \<noteq> 4) (attached_rules e instance))
        @ [''-j $sg-fallback'']
      \<and> (\<forall>rule \<in> set (attached_rules e instance).
            protocol rule = Some ''icmp'' \<longrightarrow>
              rule_directive e rule =
                (let c = the (cidr rule);
                     qualifier = str_int (from_port rule)
                       @ (if to_port rule = - 1 then [] else ''/'' @ str_int (to_port rule))
                 in if get_ip_version e c = 4 then
                      ''-p icmp -s '' @ c
                      @ (if from_port rule = - 1 then [] else '' -m icmp --icmp-type '' @ qualifier)
                      @ '' -j ACCEPT''
                    else if get_ip_version e c = 6 then
                      ''-p icmpv6 -s '' @ c
                      @ (if from_port rule = - 1 then [] else '' -m icmp6 --icmpv6-type '' @ qualifier)
                      @ '' -j ACCEPT''
                    else ''-p icmp -s '' @ c @ '' -j ACCEPT'')))
   \<and> (security_group_to_nwfilter_xml e security_group_id = Inr xml \<longrightarrow>
      xml = ''<filter name='' @ quoted (''nova-secgroup-'' @ str_int security_group_id) @ '' ''
            @ (if use_ipv6 e then ''chain='root'>'' else ''chain='ipv4'>'')
            @ concat (map (rule_element e) (sg_rules (security_group_get e security_group_id)))
            @ ''</filter>''
      \<and> (\<forall>rule \<in> set (sg_rules (security_group_get e security_group_id)).
            protocol rule = Some ''icmp'' \<and> truthy (cidr rule) \<longrightarrow>
              rule_element e rule =
                (let c = the (cidr rule);
                     (element, net, mask) =
                       (if use_ipv6 e \<and> get_ip_version e c = 6
                        then (''icmpv6'', get_net_and_prefixlen e c)
                        else (''icmp'', get_net_and_mask e c))
                 in ''<rule action='accept' direction='in' priority='300'>''
                    @ ''<'' @ element @ '' srcipaddr='' @ quoted net
                    @ '' srcipmask='' @ quoted mask @ '' ''
                    @ (if from_port rule \<noteq> - 1
                       then ''type='' @ quoted (str_int (from_port rule)) @ '' '' else [])
                    @ (if to_port rule \<noteq> - 1
                       then ''code='' @ quoted (str_int (to_port rule)) @ '' '' else [])
                    @ ''/>\<newline></rule>\<newline>'')))"
  using instance_rules_directives [of e "instance" network_info ipv4_rules ipv6_rules]
    security_group_xml_elements [of e security_group_id xml]
    rule_directive_icmp [of _ e] rule_element_icmp [of _ e]
  by blast

text \<open>
  The amended C4 at instance 5 and security group 4, whose first rule is an
  echo-request rule: type \<open>8\<close>, any code.
\<close>

theorem icmp_type_code_encoding_witness:
  "instance_rules example_env (example_instance 5) [] =
     Inr ([''-m state --state INVALID -j DROP'',
           ''-m state --state ESTABLISHED,RELATED -j ACCEPT'',
           ''-s 10.0.1.1 -p udp --sport 67 --dport 68 -j ACCEPT'',
           ''-p icmp -s 0.0.0.0/0 -m icmp --icmp-type 8 -j ACCEPT'',
           ''-p udp -s 0.0.0.0/0 -m multiport --dports 8000:8080 -j ACCEPT'',
           ''-p tcp -s 0.0.0.0/0 --dport 22 -j ACCEPT'',
           ''-j $sg-fallback''],
          [''-m state --state INVALID -j DROP'',
           ''-m state --state ESTABLISHED,RELATED -j ACCEPT'',
           ''-j $sg-fallback''])
   \<and> rule_directive example_env
       \<lparr>protocol = Some ''icmp'', cidr = Some ''0.0.0.0/0'', from_port = 8, to_port = - 1\<rparr>
     = ''-p icmp -s 0.0.0.0/0 -m icmp --icmp-type 8 -j ACCEPT''
   \<and> security_group_to_nwfilter_xml example_env 4 =
       Inr (''<filter name='nova-secgroup-4' chain='ipv4'>''
            @ ''<rule action='accept' direction='in' priority='300'>''
            @ ''<icmp srcipaddr='0.0.0.0' srcipmask='0.0.0.0' type='8' />\<newline></rule>\<newline>''
            @ ''<rule action='accept' direction='in' priority='300'>''
            @ ''<udp srcipaddr='0.0.0.0' srcipmask='0.0.0.0' dstportstart='8000' dstportend='8080' />\<newline></rule>\<newline>''
            @ ''<rule action='accept' direction='in' priority='300'>''
            @ ''<tcp srcipaddr='0.0.0.0' srcipmask='0.0.0.0' dstportstart='22' dstportend='22' />\<newline></rule>\<newline>''
            @ ''</filter>'')
   \<and> rule_element example_env
       \<lparr>protocol = Some ''icmp'', cidr = Some ''0.0.0.0/0'', from_port = 8, to_port = - 1\<rparr>
     = ''<rule action='accept' direction='in' priority='300'>''
       @ ''<icmp srcipaddr='0.0.0.0' srcipmask='0.0.0.0' type='8' />\<newline></rule>\<newline>''"
proof -
  let ?icmp = "\<lparr>protocol = Some ''icmp'', cidr = Some ''0.0.0.0/0'', from_port = 8, to_port = - 1\<rparr>"
  have xml: "security_group_to_nwfilter_xml example_env 4 =
       Inr (''<filter name='nova-secgroup-4' chain='ipv4'>''
            @ ''<rule action='accept' direction='in' priority='300'>''
            @ ''<icmp srcipaddr='0.0.0.0' srcipmask='0.0.0.0' type='8' />\<newline></rule>\<newline>''
            @ ''<rule action='accept' direction='in' priority='300'>''
            @ ''<udp srcipaddr='0.0.0.0' srcipmask='0.0.0.0' dstportstart='8000' dstportend='8080' />\<newline></rule>\<newline>''
            @ ''<rule action='accept' direction='in' priority='300'>''
            @ ''<tcp srcipaddr='0.0.0.0' srcipmask='0.0.0.0' dstportstart='22' dstportend='22' />\<newline></rule>\<newline>''
            @ ''</filter>'')"
    by (simp add: security_group_to_nwfilter_xml_def rule_to_xml_def rule_match_xml_def
        quoted_def sq_def example_defs str_int_def str_nat.simps Let_def)
  have a: "?icmp \<in> set (attached_rules example_env (example_instance 5))"
    by (simp add: example_attached_rules_5)
  have g: "?icmp \<in> set (sg_rules (security_group_get example_env 4))"
    by (simp add: example_defs)
  from icmp_type_code_encoding [of example_env "example_instance 5" "[]" _ _ 4]
    example_instance_5_rules xml a g
  have "rule_directive example_env ?icmp =
          ''-p icmp -s 0.0.0.0/0 -m icmp --icmp-type '' @ str_int 8 @ '' -j ACCEPT''"
    and "rule_element example_env ?icmp =
          ''<rule action='accept' direction='in' priority='300'>''
          @ ''<icmp srcipaddr='' @ quoted ''0.0.0.0'' @ '' srcipmask='' @ quoted ''0.0.0.0'' @ '' ''
          @ ''type='' @ quoted (str_int 8) @ '' '' @ ''/>\<newline></rule>\<newline>''"
    by (auto simp: example_env_def Let_def)
  with example_instance_5_rules xml show ?thesis
    by (simp add: str_int_def str_nat.simps quoted_def sq_def)
qed

subsection \<open>C5: a rule without a CIDR\<close>

text \<open>
  Claim C5, at security group 2, whose one rule has no CIDR. \<^verbatim>\<open>instance_rules\<close>
  passes the rule over and adds no directive. \<^verbatim>\<open>security_group_to_nwfilter_xml\<close>
  opens the \<^verbatim>\<open>rule\<close> element before it tests the CIDR and closes it after, so the
  document it produces holds a \<^verbatim>\<open>rule\<close> element for this rule: an accepting rule for
  inbound traffic, with no match inside.
\<close>

theorem rule_without_cidr_nwfilter_xml:
  "security_group_rule_get_by_security_group example_env 2 =
     [\<lparr>protocol = None, cidr = None, from_port = - 1, to_port = - 1\<rparr>]
   \<and> sg_rules (security_group_get example_env 2) =
     [\<lparr>protocol = None, cidr = None, from_port = - 1, to_port = - 1\<rparr>]
   \<and> compile_rule example_env
       \<lparr>protocol = None, cidr = None, from_port = - 1, to_port = - 1\<rparr> ([], []) = Inr ([], [])
   \<and> security_group_to_nwfilter_xml example_env 2 =
       Inr (''<filter name='nova-secgroup-2' chain='ipv4'>''
            @ ''<rule action='accept' direction='in' priority='300'></rule>\<newline>''
            @ ''</filter>'')"
  by (simp add: compile_rule_def security_group_to_nwfilter_xml_def rule_to_xml_def
      example_env_def example_rules_def quoted_def sq_def str_int_def str_nat.simps Let_def)

subsection \<open>C6: single port against port range\<close>

text \<open>
  Claim C6. The lists that \<^verbatim>\<open>instance_rules\<close> returns hold, between the fixed first
  directives and the jump to the fallback chain, exactly one directive for each attached
  rule with a CIDR, in order: in the IPv4 list when the CIDR's version is 4 and in the
  IPv6 list otherwise. For a tcp or udp rule with \<^verbatim>\<open>from_port == to_port\<close> that
  directive is \<^verbatim>\<open>-p proto -s cidr --dport port -j ACCEPT\<close>, a single-port match with no
  range in it; with different ports it is
  \<^verbatim>\<open>-p proto -s cidr -m multiport --dports from:to -j ACCEPT\<close>. Either way the CIDR is
  the source match \<^verbatim>\<open>-s\<close>.
\<close>

theorem tcp_udp_port_match:
  assumes "instance_rules e instance network_info = Inr (ipv4_rules, ipv6_rules)"
  shows "ipv4_rules =
           base_ipv4_rules e (if network_info = [] then get_network_info e instance else network_info)
           @ map (rule_directive e)
               (filter (\<lambda>rule. get_ip_version e (the (cidr rule)) = 4) (attached_rules e instance))
           @ [''-j $sg-fallback'']
       \<and> ipv6_rules =
           base_ipv6_rules e (if network_info = [] then get_network_info e instance else network_info)
           @ map (rule_directive e)
               (filter (\<lambda>rule. get_ip_version e (the (cidr rule)) \<noteq> 4) (attached_rules e instance))
           @ [''-j $sg-fallback'']
       \<and> (\<forall>rule \<in> set (attached_rules e instance).
             protocol rule = Some ''tcp'' \<or> protocol rule = Some ''udp'' \<longrightarrow>
               rule_directive e rule =
                 ''-p '' @ the (protocol rule) @ '' -s '' @ the (cidr rule)
                 @ (if from_port rule = to_port rule
                    then '' --dport '' @ str_int (from_port rule)
                    else '' -m multiport --dports '' @ str_int (from_port rule) @ '':''
                         @ str_int (to_port rule))
                 @ '' -j ACCEPT'')"
  using instance_rules_directives [OF assms] rule_directive_tcp_udp [of _ e]
  by blast

text \<open>
  C6 at instance 5, whose group holds a rule for the UDP ports 8000 to 8080 and a rule
  for TCP port 22.
\<close>

theorem tcp_udp_port_match_witness:
  "instance_rules example_env (example_instance 5) [] =
     Inr ([''-m state --state INVALID -j DROP'',
           ''-m state --state ESTABLISHED,RELATED -j ACCEPT'',
           ''-s 10.0.1.1 -p udp --sport 67 --dport 68 -j ACCEPT'',
           ''-p icmp -s 0.0.0.0/0 -m icmp --icmp-type 8 -j ACCEPT'',
           ''-p udp -s 0.0.0.0/0 -m multiport --dports 8000:8080 -j ACCEPT'',
           ''-p tcp -s 0.0.0.0/0 --dport 22 -j ACCEPT'',
           ''-j $sg-fallback''],
          [''-m state --state INVALID -j DROP'',
           ''-m state --state ESTABLISHED,RELATED -j ACCEPT'',
           ''-j $sg-fallback''])
   \<and> rule_directive example_env
       \<lparr>protocol = Some ''tcp'', cidr = Some ''0.0.0.0/0'', from_port = 22, to_port = 22\<rparr>
     = ''-p tcp -s 0.0.0.0/0 --dport 22 -j ACCEPT''
   \<and> rule_directive example_env
       \<lparr>protocol = Some ''udp'', cidr = Some ''0.0.0.0/0'', from_port = 8000, to_port = 8080\<rparr>
     = ''-p udp -s 0.0.0.0/0 -m multiport --dports 8000:8080 -j ACCEPT''"
proof -
  note inst = tcp_udp_port_match [OF example_instance_5_rules]
  from inst have
    "\<forall>rule \<in> set (attached_rules example_env (example_instance 5)).
       protocol rule = Some ''tcp'' \<or> protocol rule = Some ''udp'' \<longrightarrow>
         rule_directive example_env rule =
           ''-p '' @ the (protocol rule) @ '' -s '' @ the (cidr rule)
           @ (if from_port rule = to_port rule
              then '' --dport '' @ str_int (from_port rule)
              else '' -m multiport --dports '' @ str_int (from_port rule) @ '':''
                   @ str_int (to_port rule))
           @ '' -j ACCEPT''"
    by blast
  then show ?thesis
    by (simp add: example_attached_rules_5 example_instance_5_rules str_int_def str_nat.simps)
qed

subsection \<open>C7: unfiltering an instance that is not tracked\<close>

text \<open>
  Claim C7. \<^verbatim>\<open>unfilter_instance\<close> on an instance that is not in the tracked set
  returns the driver as it was but for one more log message: the tracked set, the
  chain tables and the number of \<^verbatim>\<open>apply()\<close> calls are unchanged, and nothing is
  raised. A second \<^verbatim>\<open>unfilter_instance\<close> right after a first on the same instance is
  such a call, whatever the first one found.
\<close>

theorem unfilter_untracked_instance_only_logs:
  "(map_of (instances st) (inst_id instance) = None \<longrightarrow>
      unfilter_instance e instance st =
        st\<lparr>logged := logged st @
             [''Attempted to unfilter instance '' @ str_int (inst_id instance)
              @ '' which is not filtered'']\<rparr>
      \<and> instances (unfilter_instance e instance st) = instances st
      \<and> iptables (unfilter_instance e instance st) = iptables st)
   \<and> unfilter_instance e instance (unfilter_instance e instance st) =
       (unfilter_instance e instance st)
         \<lparr>logged := logged (unfilter_instance e instance st) @
            [''Attempted to unfilter instance '' @ str_int (inst_id instance)
             @ '' which is not filtered'']\<rparr>"
proof (intro conjI impI)
  assume h: "map_of (instances st) (inst_id instance) = None"
  from unfilter_untracked [OF h]
  show "unfilter_instance e instance st =
        st\<lparr>logged := logged st @
             [''Attempted to unfilter instance '' @ str_int (inst_id instance)
              @ '' which is not filtered'']\<rparr>" .
  from unfilter_untracked [OF h, of e]
  show "instances (unfilter_instance e instance st) = instances st" by simp
  from unfilter_untracked [OF h, of e]
  show "iptables (unfilter_instance e instance st) = iptables st" by simp
next
  show "unfilter_instance e instance (unfilter_instance e instance st) =
       (unfilter_instance e instance st)
         \<lparr>logged := logged (unfilter_instance e instance st) @
            [''Attempted to unfilter instance '' @ str_int (inst_id instance)
             @ '' which is not filtered'']\<rparr>"
    by (rule unfilter_untracked) (rule unfilter_instance_untracks)
qed

text \<open>C7 at a driver that was just built and tracks nothing.\<close>

theorem unfilter_untracked_instance_only_logs_witness:
  "map_of (instances (iptables_driver_init empty_manager [])) (inst_id (example_instance 1)) = None
   \<and> unfilter_instance example_env (example_instance 1) (iptables_driver_init empty_manager []) =
       (iptables_driver_init empty_manager [])
         \<lparr>logged := [''Attempted to unfilter instance 1 which is not filtered'']\<rparr>"
proof -
  have h: "map_of (instances (iptables_driver_init empty_manager [])) (inst_id (example_instance 1)) = None"
    by (simp add: iptables_driver_init_def Let_def)
  have l: "logged (iptables_driver_init empty_manager []) = []"
    by (simp add: iptables_driver_init_def Let_def)
  have s: "str_int (inst_id (example_instance 1)) = ''1''"
    by (simp add: example_instance_def str_int_def str_nat.simps)
  from unfilter_untracked_instance_only_logs
    [of "iptables_driver_init empty_manager []" "example_instance 1" example_env] h
  have "unfilter_instance example_env (example_instance 1) (iptables_driver_init empty_manager []) =
        (iptables_driver_init empty_manager [])
          \<lparr>logged := logged (iptables_driver_init empty_manager []) @
             [''Attempted to unfilter instance '' @ str_int (inst_id (example_instance 1))
              @ '' which is not filtered'']\<rparr>"
    by blast
  with h l s show ?thesis by simp
qed

subsection \<open>C8: what unfiltering tears down\<close>

text \<open>
  Claim C8 fails for \<^verbatim>\<open>NWFilterFirewall\<close>. After \<^verbatim>\<open>prepare_instance_filter\<close> has
  defined the three filters of instance 1, \<^verbatim>\<open>unfilter_instance\<close> leaves every one of
  them defined, the filter of the NIC among them.
\<close>

theorem nwfilter_unfilter_keeps_filters_counterexample:
  "nwfilter_prepare_instance_filter example_env (example_instance 1) [] (nwfilter_init []) =
     Inr \<lparr>static_filters_configured = False, handle_security_groups = False,
          defined = example_filters\<rparr>
   \<and> defined (nwfilter_unfilter_instance (example_instance 1)
        \<lparr>static_filters_configured = False, handle_security_groups = False,
         defined = example_filters\<rparr>)
     = example_filters
   \<and> last example_filters =
       ''<filter name='nova-instance-instance-1-aabbccddeeff' chain='root'>''
       @ ''<filterref filter='nova-base'/>''
       @ ''<filterref filter='nova-instance-instance-1-secgroup'/></filter>''"
  by (simp add: nwfilter_prepare_instance_filter_def nwfilter_refresh_security_group_rules_def
      security_group_to_nwfilter_xml_def rule_to_xml_def rule_match_xml_def
      create_network_filters_def define_filters_def define_filter_def filter_container_def
      instance_filter_name_def strip_colons_def nwfilter_init_def nwfilter_unfilter_instance_def
      example_filters_def example_defs quoted_def sq_def str_int_def str_nat.simps Let_def)

text \<open>
  Claim C8 as amended. \<^verbatim>\<open>IptablesFirewallDriver.unfilter_instance\<close> on a tracked
  instance removes the instance's chain, with its rules, from the IPv4 table and, when
  IPv6 is enabled, from the IPv6 table (which it leaves alone otherwise), applies once
  and untracks the instance; it does not touch the \<^verbatim>\<open>NWFilterFirewall\<close> that the driver
  holds. \<^verbatim>\<open>NWFilterFirewall.unfilter_instance\<close> does nothing: the filters defined on
  prepare and setup stay defined.
\<close>

theorem unfilter_instance_teardown:
  assumes "map_of (instances st) (inst_id instance) \<noteq> None"
  shows "instance_chain_name instance
           \<notin> set (table_chains (ipv4 (iptables (unfilter_instance e instance st))))
       \<and> chain_rules (ipv4 (iptables (unfilter_instance e instance st)))
           (instance_chain_name instance) = []
       \<and> (use_ipv6 e \<longrightarrow>
            instance_chain_name instance
              \<notin> set (table_chains (ipv6 (iptables (unfilter_instance e instance st))))
            \<and> chain_rules (ipv6 (iptables (unfilter_instance e instance st)))
                (instance_chain_name instance) = [])
       \<and> (\<not> use_ipv6 e \<longrightarrow>
            ipv6 (iptables (unfilter_instance e instance st)) = ipv6 (iptables st))
       \<and> apply_count (iptables (unfilter_instance e instance st)) = Suc (apply_count (iptables st))
       \<and> map_of (instances (unfilter_instance e instance st)) (inst_id instance) = None
       \<and> nwfilter (unfilter_instance e instance st) = nwfilter st
       \<and> nwfilter_unfilter_instance instance nw = nw"
proof -
  from assms obtain i where i: "map_of (instances st) (inst_id instance) = Some i"
    by blast
  then have u: "unfilter_instance e instance st =
      (remove_filters_for_instance e instance
         (st\<lparr>instances := AList.delete (inst_id instance) (instances st)\<rparr>))
      \<lparr>iptables := iptables_apply (iptables (remove_filters_for_instance e instance
         (st\<lparr>instances := AList.delete (inst_id instance) (instances st)\<rparr>)))\<rparr>"
    by (simp add: unfilter_instance_def Let_def)
  show ?thesis
    unfolding u
    by (simp add: remove_filters_for_instance_def iptables_apply_def record_event_def Let_def
        remove_chain_chains remove_chain_rules delete_conv nwfilter_unfilter_instance_def)
qed

text \<open>The amended C8 at instance 1, right after \<^verbatim>\<open>prepare_instance_filter\<close>.\<close>

theorem unfilter_instance_teardown_witness:
  "\<exists>st. prepare_instance_filter example_env (example_instance 1) []
           (iptables_driver_init empty_manager []) = Inr st
      \<and> map_of (instances st) (inst_id (example_instance 1)) \<noteq> None
      \<and> ''inst-1'' \<notin> set (table_chains (ipv4 (iptables
            (unfilter_instance example_env (example_instance 1) st))))
      \<and> chain_rules (ipv4 (iptables (unfilter_instance example_env (example_instance 1) st)))
           ''inst-1'' = []
      \<and> apply_count (iptables (unfilter_instance example_env (example_instance 1) st)) =
           Suc (apply_count (iptables st))"
proof -
  obtain st where st: "prepare_instance_filter example_env (example_instance 1) []
           (iptables_driver_init empty_manager []) = Inr st"
    using prepare_instance_filter_returns [OF example_instance_rules] by blast
  have tracked: "map_of (instances st) (inst_id (example_instance 1)) \<noteq> None"
    using prepare_instance_filter_tracks [OF st] by simp
  have name: "instance_chain_name (example_instance 1) = ''inst-1''"
    by (simp add: instance_chain_name_def example_instance_def str_int_def str_nat.simps)
  from unfilter_instance_teardown [OF tracked, of example_env] st tracked
  show ?thesis unfolding name by blast
qed

subsection \<open>C9: the existence check\<close>

text \<open>
  Claim C9. \<^verbatim>\<open>instance_filter_exists\<close> stops at the first NIC whose filter the lookup
  does not find: it returns \<^verbatim>\<open>False\<close> and logs one message, which names that filter.
  When the lookup finds the filter of every NIC it returns \<^verbatim>\<open>True\<close> and logs nothing.
  So the result is \<^verbatim>\<open>True\<close> exactly when every NIC's filter is found, and the lookup
  error never leaves the method.
\<close>

theorem instance_filter_exists_result:
  "nwfilter_instance_filter_exists e lookup instance =
     (case find (\<lambda>(network, mapping).
                   \<not> lookup (instance_filter_name instance (Some (strip_colons (mac mapping)))))
             (get_network_info e instance) of
        None \<Rightarrow> (True, [])
      | Some (network, mapping) \<Rightarrow>
          (False, [''The nwfilter(''
                   @ instance_filter_name instance (Some (strip_colons (mac mapping)))
                   @ '') for'' @ inst_name instance @ '' is not found.'']))
   \<and> (fst (nwfilter_instance_filter_exists e lookup instance) \<longleftrightarrow>
        (\<forall>(network, mapping) \<in> set (get_network_info e instance).
           lookup (instance_filter_name instance (Some (strip_colons (mac mapping))))))"
  unfolding nwfilter_instance_filter_exists_def
  using filter_exists_loop_find filter_exists_loop_all by blast

text \<open>C9 at instance 1, with no filter defined and with the filter of its NIC defined.\<close>

theorem instance_filter_exists_result_witness:
  "nwfilter_instance_filter_exists example_env (\<lambda>name. False) (example_instance 1) =
     (False, [''The nwfilter(nova-instance-instance-1-aabbccddeeff) forinstance-1 is not found.''])
   \<and> nwfilter_instance_filter_exists example_env
        (\<lambda>name. name = ''nova-instance-instance-1-aabbccddeeff'') (example_instance 1) = (True, [])"
  using instance_filter_exists_result [of example_env "\<lambda>name. False" "example_instance 1"]
    instance_filter_exists_result
      [of example_env "\<lambda>name. name = ''nova-instance-instance-1-aabbccddeeff''" "example_instance 1"]
  by (simp add: example_defs instance_filter_name_def strip_colons_def str_int_def str_nat.simps)

subsection \<open>C10: an instance without security groups\<close>

text \<open>
  Claim C10. For an instance with no security group, \<^verbatim>\<open>prepare_instance_filter\<close> of
  \<^verbatim>\<open>NWFilterFirewall\<close> defines one filter for each NIC and nothing else: the filter
  \<^verbatim>\<open>nova-instance-NAME-secgroup\<close> is never defined, since its definition is inside the
  loop over the groups. Each NIC filter has that name as its second child. A NIC filter
  does not itself carry that name, unless the NIC's MAC address without its colons
  reads \<^verbatim>\<open>secgroup\<close>.
\<close>

theorem prepare_without_groups_defines_nic_filters_only:
  assumes "security_group_get_by_instance e (inst_id instance) = []"
  shows "nwfilter_prepare_instance_filter e instance network_info st =
         Inr (st\<lparr>defined := defined st @
                map (\<lambda>(network, mapping).
                       filter_container
                         (instance_filter_name instance (Some (strip_colons (mac mapping))))
                         ([if image_ref instance = vpn_image_id e then ''nova-vpn'' else ''nova-base'',
                           instance_filter_name instance None @ ''-secgroup'']
                          @ (if allow_project_net_traffic e
                             then [''nova-project''] @ (if use_ipv6 e then [''nova-project-v6''] else [])
                             else [])))
                  (if network_info = [] then get_network_info e instance else network_info)\<rparr>)
       \<and> (\<forall>(network, mapping) \<in>
              set (if network_info = [] then get_network_info e instance else network_info).
            strip_colons (mac mapping) \<noteq> ''secgroup'' \<longrightarrow>
              instance_filter_name instance (Some (strip_colons (mac mapping))) \<noteq>
              instance_filter_name instance None @ ''-secgroup'')"
proof
  show "nwfilter_prepare_instance_filter e instance network_info st =
         Inr (st\<lparr>defined := defined st @
                map (\<lambda>(network, mapping).
                       filter_container
                         (instance_filter_name instance (Some (strip_colons (mac mapping))))
                         ([if image_ref instance = vpn_image_id e then ''nova-vpn'' else ''nova-base'',
                           instance_filter_name instance None @ ''-secgroup'']
                          @ (if allow_project_net_traffic e
                             then [''nova-project''] @ (if use_ipv6 e then [''nova-project-v6''] else [])
                             else [])))
                  (if network_info = [] then get_network_info e instance else network_info)\<rparr>)"
    using assms
    by (simp add: nwfilter_prepare_instance_filter_def fold_define_filters
        create_network_filters_def Let_def)
       (simp add: split_def)
next
  show "\<forall>(network, mapping) \<in>
          set (if network_info = [] then get_network_info e instance else network_info).
        strip_colons (mac mapping) \<noteq> ''secgroup'' \<longrightarrow>
          instance_filter_name instance (Some (strip_colons (mac mapping))) \<noteq>
          instance_filter_name instance None @ ''-secgroup''"
    using nic_filter_name_not_secgroup by blast
qed

text \<open>C10 at instance 3, which has no group.\<close>

theorem prepare_without_groups_defines_nic_filters_only_witness:
  "security_group_get_by_instance example_env (inst_id (example_instance 3)) = []
   \<and> nwfilter_prepare_instance_filter example_env (example_instance 3) [] (nwfilter_init []) =
       Inr \<lparr>static_filters_configured = False, handle_security_groups = False,
            defined =
              [''<filter name='nova-instance-instance-3-aabbccddee00' chain='root'>''
               @ ''<filterref filter='nova-base'/>''
               @ ''<filterref filter='nova-instance-instance-3-secgroup'/></filter>'']\<rparr>"
proof -
  have h: "security_group_get_by_instance example_env (inst_id (example_instance 3)) = []"
    by (simp add: example_env_def example_instance_def)
  from prepare_without_groups_defines_nic_filters_only [OF h, of "[]" "nwfilter_init []"] h
  show ?thesis
    by (simp add: example_defs nwfilter_init_def filter_container_def instance_filter_name_def
        strip_colons_def quoted_def sq_def str_int_def str_nat.simps)
qed

end
